theory Spec2Isabelle
  imports Complex_Main
begin

section \<open>The Bobgo delivery connector: a shallow embedding\<close>

text \<open>
  The theory embeds \<^verbatim>\<open>delivery_bobgo/models/delivery_bobgo.py\<close> and
  \<^verbatim>\<open>delivery_bobgo/wizard/choose_bobgo_rate.py\<close>. Conventions:
  \<^item> a Python value that travels through JSON is a \<open>pyval\<close>; a dictionary is an
    association list in insertion order;
  \<^item> a Python \<open>float\<close> is a finite real: rounding, infinities and NaN are outside the
    model. The properties proved about floats are order comparisons and sign conditions;
  \<^item> an ORM \<open>Char\<close> field is a \<open>string option\<close> (\<open>None\<close> is the framework's \<open>False\<close>), a
    many-to-one field an \<open>option\<close> of the record it points to (\<open>None\<close> is the empty
    recordset), a \<open>Float\<close> field a real, an \<open>Integer\<close> field an int;
  \<^item> an exception is a value of \<open>exn\<close>; a method that may raise returns \<open>exn + 'a\<close>;
  \<^item> ORM \<open>create\<close> and \<open>write\<close> store what they are given; the constraints this
    repository declares with \<open>@api.constrains\<close> on a field that a method writes are part of
    the write, and the attributes of a field (\<open>required\<close>, \<open>digits\<close>) are not enforced;
  \<^item> the translation function \<open>_\<close> is the identity (the source language), and logging
    calls have no effect on the model.
\<close>

subsection \<open>Python values and exceptions\<close>

datatype pyval =
    PyNone
  | PyBool bool
  | PyInt int
  | PyFloat real
  | PyStr string
  | PyList "pyval list"
  | PyDict "(string \<times> pyval) list"

text \<open>
  A user error carries its message. Where the source formats \<open>str(e)\<close> of a caught
  exception into the message, the model keeps the text before it and the exception itself
  (\<open>Caused\<close>): the text a library exception prints is not modelled.
\<close>

text \<open>
  An HTTP response: its status, its body as JSON (\<open>None\<close> when the body is not JSON, so
  that \<open>response.json()\<close> raises) and its body as text.
\<close>

record response =
  status_code :: int
  json_body :: "pyval option"
  resp_text :: string

datatype exn =
    UserError umsg
  | ValidationError umsg
  | TypeError
  | ValueError
  | OverflowError
  | KeyError
  | IndexError
  | AttributeError
  | Timeout
  | ConnectionError
  | HTTPError response
  | JSONDecodeError
  | RequestException
and umsg =
    Msg string
  | Caused string exn

text \<open>
  \<open>except UserError\<close> catches the framework's \<open>UserError\<close> and its subclass
  \<open>ValidationError\<close>, which the constraints of the models raise.
\<close>

fun is_user_error :: "exn \<Rightarrow> bool" where
  "is_user_error (UserError m) = True"
| "is_user_error (ValidationError m) = True"
| "is_user_error e = False"

text \<open>Truth value of a Python object (\<open>bool(v)\<close>).\<close>

fun truthy :: "pyval \<Rightarrow> bool" where
  "truthy PyNone = False"
| "truthy (PyBool b) = b"
| "truthy (PyInt i) = (i \<noteq> 0)"
| "truthy (PyFloat r) = (r \<noteq> 0)"
| "truthy (PyStr s) = (s \<noteq> [])"
| "truthy (PyList vs) = (vs \<noteq> [])"
| "truthy (PyDict kvs) = (kvs \<noteq> [])"

text \<open>\<open>x or d\<close> on a \<open>Char\<close> field: the field when it is a non-empty string, else \<open>d\<close>.\<close>

definition or_str :: "string option \<Rightarrow> string \<Rightarrow> string" where
  "or_str x d = (case x of None \<Rightarrow> d | Some s \<Rightarrow> if s = [] then d else s)"

subsection \<open>Strings\<close>

definition startswith :: "string \<Rightarrow> string \<Rightarrow> bool" where
  "startswith s p = (take (length p) s = p)"

text \<open>
  \<open>str.isspace\<close> on the code points below 256: tab, line feed, vertical tab, form feed,
  carriage return, the four separators 28 to 31, space, next line (133) and the
  no-break space (160).
\<close>

definition is_space :: "char \<Rightarrow> bool" where
  "is_space c = (of_char c \<in> {9, 10, 11, 12, 13, 28, 29, 30, 31, 32, 133, 160 :: nat})"

definition strip :: "string \<Rightarrow> string" where
  "strip s = rev (dropWhile is_space (rev (dropWhile is_space s)))"

text \<open>\<open>s.split(c)\<close> for a one-character separator, and \<open>c.join(parts)\<close>.\<close>

fun split_on :: "char \<Rightarrow> string \<Rightarrow> string list" where
  "split_on c [] = [[]]"
| "split_on c (x # xs) =
     (if x = c then [] # split_on c xs
      else (case split_on c xs of [] \<Rightarrow> [[x]] | w # ws \<Rightarrow> (x # w) # ws))"

fun join_with :: "char \<Rightarrow> string list \<Rightarrow> string" where
  "join_with c [] = []"
| "join_with c [w] = w"
| "join_with c (w # ws) = w @ c # join_with c ws"

fun contains :: "string \<Rightarrow> string \<Rightarrow> bool" where
  "contains [] p = (p = [])"
| "contains (x # xs) p = (startswith (x # xs) p \<or> contains xs p)"

subsection \<open>The carrier record\<close>

record carrier =
  carrier_id :: int
  carrier_name :: "string option"
  delivery_type :: string
  bobgo_api_key :: "string option"
  bobgo_test_mode :: bool
  bobgo_handling_time :: int

definition bobgo_get_api_base_url :: "carrier \<Rightarrow> string" where
  "bobgo_get_api_base_url self =
     (if bobgo_test_mode self then ''https://api.sandbox.bobgo.co.za/v2''
      else ''https://api.bobgo.co.za/v2'')"

text \<open>
  The constraint \<open>_check_bobgo_api_key\<close>, which the framework runs when \<open>bobgo_api_key\<close>
  is written: on a Bobgo carrier a key that is set and whose stripped length is below 20
  raises a validation error.
\<close>

definition check_bobgo_api_key :: "carrier \<Rightarrow> exn + unit" where
  "check_bobgo_api_key c =
     (case bobgo_api_key c of
        None \<Rightarrow> Inr ()
      | Some k \<Rightarrow>
          if delivery_type c = ''bobgo'' \<and> k \<noteq> [] \<and> length (strip k) < 20
          then Inl (ValidationError (Msg
            ''API Key seems too short. Please check your Bobgo API key.''))
          else Inr ())"

text \<open>
  \<open>bobgo_validate_configuration\<close>: raises on an empty key (\<open>False\<close> or \<open>""\<close>), otherwise
  assigns the prefixed key when the condition of the source holds, and returns \<open>True\<close>
  with the carrier as it now is. The assignment is a write of \<open>bobgo_api_key\<close>, so the
  constraint above runs on the carrier as assigned, and what it raises leaves the method;
  the rejected assignment is not kept.
\<close>

definition bobgo_validate_configuration :: "carrier \<Rightarrow> exn + (bool \<times> carrier)" where
  "bobgo_validate_configuration self =
     (case bobgo_api_key self of
        None \<Rightarrow> Inl (UserError (Msg
          ''Bobgo API Key is not configured. Please set it in the delivery method configuration.''))
      | Some k \<Rightarrow>
          if k = [] then Inl (UserError (Msg
            ''Bobgo API Key is not configured. Please set it in the delivery method configuration.''))
          else if \<not> startswith k ''Bearer '' \<and> length (strip k) > 10
            then (case check_bobgo_api_key (self\<lparr>bobgo_api_key := Some (''Bearer '' @ strip k)\<rparr>) of
                    Inl e \<Rightarrow> Inl e
                  | Inr u \<Rightarrow> Inr (True, self\<lparr>bobgo_api_key := Some (''Bearer '' @ strip k)\<rparr>))
          else Inr (True, self))"

subsection \<open>\<open>urllib.parse.urljoin\<close>\<close>

text \<open>
  The standard library's \<open>urljoin\<close>, for a base and a reference without query,
  fragment or parameters (no \<open>?\<close>, \<open>#\<close> or \<open>;\<close>), which is all this module passes.
  \<open>urlparse\<close> splits off a scheme (up to the first colon, when what precedes it is a
  scheme name) and a network location (after \<open>//\<close>, up to the next slash).
\<close>

definition is_scheme_char :: "char \<Rightarrow> bool" where
  "is_scheme_char c =
     (let n = (of_char c :: nat)
      in (65 \<le> n \<and> n \<le> 90) \<or> (97 \<le> n \<and> n \<le> 122) \<or> (48 \<le> n \<and> n \<le> 57)
         \<or> c = CHR ''+'' \<or> c = CHR ''-'' \<or> c = CHR ''.'')"

definition is_alpha :: "char \<Rightarrow> bool" where
  "is_alpha c = (let n = (of_char c :: nat) in (65 \<le> n \<and> n \<le> 90) \<or> (97 \<le> n \<and> n \<le> 122))"

definition lower_char :: "char \<Rightarrow> char" where
  "lower_char c = (let n = (of_char c :: nat) in if 65 \<le> n \<and> n \<le> 90 then char_of (n + 32) else c)"

definition urlparse :: "string \<Rightarrow> string \<Rightarrow> string \<times> string \<times> string" where
  "urlparse url default_scheme =
     (let pre = takeWhile (\<lambda>c. c \<noteq> CHR '':'') url;
          has_scheme = (length pre < length url \<and> pre \<noteq> [] \<and> is_alpha (hd pre)
                        \<and> list_all is_scheme_char pre);
          scheme = (if has_scheme then map lower_char pre else default_scheme);
          rest = (if has_scheme then drop (length pre + 1) url else url)
      in if take 2 rest = ''//''
         then (let loc = takeWhile (\<lambda>c. c \<noteq> CHR ''/'') (drop 2 rest)
               in (scheme, loc, drop (2 + length loc) rest))
         else (scheme, [], rest))"

definition uses_relative :: "string list" where
  "uses_relative = ['''', ''ftp'', ''http'', ''gopher'', ''nntp'', ''imap'', ''wais'', ''file'',
     ''https'', ''shttp'', ''mms'', ''prospero'', ''rtsp'', ''rtspu'', ''sftp'', ''svn'',
     ''svn+ssh'', ''ws'', ''wss'']"

definition uses_netloc :: "string list" where
  "uses_netloc = ['''', ''ftp'', ''http'', ''gopher'', ''nntp'', ''telnet'', ''imap'', ''wais'',
     ''file'', ''mms'', ''https'', ''shttp'', ''snews'', ''prospero'', ''rtsp'', ''rtspu'',
     ''rsync'', ''svn'', ''svn+ssh'', ''sftp'', ''nfs'', ''git'', ''git+ssh'', ''ws'', ''wss'']"

definition urlunparse :: "string \<Rightarrow> string \<Rightarrow> string \<Rightarrow> string" where
  "urlunparse scheme netloc path =
     (let url = (if netloc \<noteq> [] \<or> (scheme \<noteq> [] \<and> scheme \<in> set uses_netloc \<and> take 2 path \<noteq> ''//'')
                 then ''//'' @ netloc @ (if path \<noteq> [] \<and> take 1 path \<noteq> ''/'' then CHR ''/'' # path else path)
                 else path)
      in if scheme \<noteq> [] then scheme @ CHR '':'' # url else url)"

text \<open>The loop over the segments: \<open>..\<close> pops (when there is something to pop), \<open>.\<close> is skipped.\<close>

fun resolve_segments :: "string list \<Rightarrow> string list \<Rightarrow> string list" where
  "resolve_segments resolved [] = resolved"
| "resolve_segments resolved (seg # segs) =
     (if seg = ''..'' then resolve_segments (butlast resolved) segs
      else if seg = ''.'' then resolve_segments resolved segs
      else resolve_segments (resolved @ [seg]) segs)"

definition urljoin :: "string \<Rightarrow> string \<Rightarrow> string" where
  "urljoin base url =
     (if base = [] then url
      else if url = [] then base
      else
        (case urlparse base [] of (bscheme, bnetloc, bpath) \<Rightarrow>
         (case urlparse url bscheme of (scheme, netloc, path) \<Rightarrow>
           if scheme \<noteq> bscheme \<or> scheme \<notin> set uses_relative then url
           else if scheme \<in> set uses_netloc \<and> netloc \<noteq> [] then urlunparse scheme netloc path
           else
             (let netloc' = (if scheme \<in> set uses_netloc then bnetloc else netloc)
              in if path = [] then urlunparse scheme netloc' bpath
                 else
                   (let base_parts0 = split_on CHR ''/'' bpath;
                        base_parts = (if last base_parts0 \<noteq> [] then butlast base_parts0 else base_parts0);
                        segments =
                          (if take 1 path = ''/'' then split_on CHR ''/'' path
                           else (let s = base_parts @ split_on CHR ''/'' path
                                 in if length s < 2 then s
                                    else hd s # filter (\<lambda>w. w \<noteq> []) (butlast (tl s)) @ [last s]));
                        resolved0 = resolve_segments [] segments;
                        resolved = (if last segments = ''.'' \<or> last segments = ''..''
                                    then resolved0 @ [[]] else resolved0);
                        joined = join_with CHR ''/'' resolved
                    in urlunparse scheme netloc' (if joined = [] then ''/'' else joined))))))"

text \<open>The URL \<open>bobgo_rate_shipment\<close> posts to: \<open>urljoin(base_url, "/rates-at-checkout")\<close>.\<close>

definition rate_request_url :: "carrier \<Rightarrow> string" where
  "rate_request_url self = urljoin (bobgo_get_api_base_url self) ''/rates-at-checkout''"

subsection \<open>Numbers\<close>

text \<open>
  The runtime's conversions that the source does not define are parameters of the model:
  \<open>float_of_str s\<close> is the float that \<open>float(s)\<close> returns for a string (\<open>None\<close> when it
  raises \<open>ValueError\<close>), and \<open>repr_of v\<close> is \<open>str(v)\<close> for a float, a list or a dictionary.
\<close>

record runtime =
  float_of_str :: "string \<Rightarrow> real option"
  repr_of :: "pyval \<Rightarrow> string"

text \<open>
  \<open>float(v)\<close>. \<open>None\<close>, a list and a dictionary raise \<open>TypeError\<close>; a string that is no
  float literal raises \<open>ValueError\<close>; an integer that rounds to \<open>2 ^ 1024\<close> or beyond
  (from \<open>2 ^ 1024 - 2 ^ 970\<close> on, by rounding to even) raises \<open>OverflowError\<close>.
\<close>

fun py_float :: "runtime \<Rightarrow> pyval \<Rightarrow> exn + real" where
  "py_float rt PyNone = Inl TypeError"
| "py_float rt (PyBool b) = Inr (if b then 1 else 0)"
| "py_float rt (PyInt i) =
     (if \<bar>i\<bar> \<ge> 2 ^ 1024 - 2 ^ 970 then Inl OverflowError else Inr (real_of_int i))"
| "py_float rt (PyFloat r) = Inr r"
| "py_float rt (PyStr s) = (case float_of_str rt s of None \<Rightarrow> Inl ValueError | Some r \<Rightarrow> Inr r)"
| "py_float rt (PyList vs) = Inl TypeError"
| "py_float rt (PyDict kvs) = Inl TypeError"

text \<open>\<open>int(r)\<close> of a float truncates towards zero; \<open>max(a, b)\<close> keeps \<open>a\<close> unless \<open>b > a\<close>.\<close>

definition py_int_of_float :: "real \<Rightarrow> int" where
  "py_int_of_float r = (if r \<ge> 0 then \<lfloor>r\<rfloor> else \<lceil>r\<rceil>)"

definition py_max :: "'a::linorder \<Rightarrow> 'a \<Rightarrow> 'a" where
  "py_max a b = (if b > a then b else a)"

text \<open>
  \<open>_safe_float\<close>: the \<open>try\<close> block returns the default for \<open>None\<close> and for a result that is
  not positive; the handler catches \<open>TypeError\<close> and \<open>ValueError\<close> and nothing else.
\<close>

definition safe_float :: "runtime \<Rightarrow> pyval \<Rightarrow> real \<Rightarrow> exn + real" where
  "safe_float rt v dflt =
     (if v = PyNone then Inr dflt
      else (case py_float rt v of
              Inr result \<Rightarrow> if result \<le> 0 then Inr dflt else Inr result
            | Inl TypeError \<Rightarrow> Inr dflt
            | Inl ValueError \<Rightarrow> Inr dflt
            | Inl e \<Rightarrow> Inl e))"

definition bind_exn :: "exn + 'a \<Rightarrow> ('a \<Rightarrow> exn + 'b) \<Rightarrow> exn + 'b" where
  "bind_exn m f = (case m of Inl e \<Rightarrow> Inl e | Inr x \<Rightarrow> f x)"

subsection \<open>Framework records read by the carrier\<close>

record partner =
  partner_name :: "string option"
  street :: "string option"
  street2 :: "string option"
  city :: "string option"
  state_code :: "string option"
  country_code :: "string option"
  zip_code :: "string option"
  mobile :: "string option"
  phone :: "string option"
  email :: "string option"

record product =
  display_name :: "string option"
  length_cm :: real
  width_cm :: real
  height_cm :: real
  weight :: real

record order_line =
  is_delivery :: bool
  product_id :: "product option"
  line_name :: string
  price_unit :: real
  product_uom_qty :: real

text \<open>
  \<open>warehouse_partner\<close> is \<open>order.warehouse_id.partner_id\<close>: empty when the order has no
  warehouse or the warehouse no partner. \<open>state_code\<close> and \<open>country_code\<close> are
  \<open>state_id.code\<close> and \<open>country_id.code\<close>, \<open>False\<close> on an empty record.
\<close>

record sale_order =
  order_id :: int
  order_name :: string
  order_line :: "order_line list"
  warehouse_partner :: "partner option"
  partner_shipping_id :: "partner option"

subsection \<open>Addresses and items of a rate request\<close>

definition address_of :: "partner \<Rightarrow> string \<Rightarrow> pyval" where
  "address_of p default_company =
     PyDict [(''company'', PyStr (or_str (partner_name p) default_company)),
             (''street_address'', PyStr (or_str (street p) [])),
             (''local_area'', PyStr (or_str (street2 p) [])),
             (''city'', PyStr (or_str (city p) [])),
             (''zone'', PyStr (or_str (state_code p) [])),
             (''country'', PyStr (or_str (country_code p) ''ZA'')),
             (''code'', PyStr (or_str (zip_code p) []))]"

definition prepare_collection_address :: "sale_order \<Rightarrow> exn + pyval" where
  "prepare_collection_address order =
     (case warehouse_partner order of
        None \<Rightarrow> Inl (UserError (Msg ''No warehouse configured for this order.''))
      | Some wp \<Rightarrow> Inr (address_of wp ''Warehouse''))"

definition prepare_delivery_address :: "sale_order \<Rightarrow> exn + pyval" where
  "prepare_delivery_address order =
     (case partner_shipping_id order of
        None \<Rightarrow> Inl (UserError (Msg ''No shipping address configured for this order.''))
      | Some sp \<Rightarrow> Inr (address_of sp []))"

text \<open>
  One pass of the loop of \<open>_prepare_order_items\<close> over a line that passed the filter.
  The six fields are ORM floats, so each call of \<open>_safe_float\<close> receives a float.
\<close>

definition item_of_line :: "runtime \<Rightarrow> product \<Rightarrow> order_line \<Rightarrow> exn + (pyval \<times> real)" where
  "item_of_line rt product line =
     bind_exn (safe_float rt (PyFloat (length_cm product)) 10) (\<lambda>length_cm'.
     bind_exn (safe_float rt (PyFloat (width_cm product)) 10) (\<lambda>width_cm'.
     bind_exn (safe_float rt (PyFloat (height_cm product)) 10) (\<lambda>height_cm'.
     bind_exn (safe_float rt (PyFloat (weight product)) (2 / 10)) (\<lambda>weight_kg.
     bind_exn (safe_float rt (PyFloat (price_unit line)) 0) (\<lambda>price.
     bind_exn (safe_float rt (PyFloat (product_uom_qty line)) 1) (\<lambda>quantity.
       Inr (PyDict [(''description'', PyStr (take 100 (or_str (display_name product) ''Product''))),
                    (''price'', PyFloat price),
                    (''quantity'', PyInt (py_max 1 (py_int_of_float quantity))),
                    (''length_cm'', PyFloat (py_max (1 / 10) length_cm')),
                    (''width_cm'', PyFloat (py_max (1 / 10) width_cm')),
                    (''height_cm'', PyFloat (py_max (1 / 10) height_cm')),
                    (''weight_kg'', PyFloat (py_max (1 / 100) weight_kg))],
            price * quantity)))))))"

text \<open>
  The loop, with the filter \<open>not l.is_delivery and l.product_id\<close> folded in: a line that
  fails it is skipped. \<open>items\<close> and \<open>declared_value\<close> are the two accumulators.
\<close>

fun order_items_loop ::
  "runtime \<Rightarrow> order_line list \<Rightarrow> pyval list \<Rightarrow> real \<Rightarrow> exn + (pyval list \<times> real)" where
  "order_items_loop rt [] items declared_value = Inr (items, declared_value)"
| "order_items_loop rt (line # lines) items declared_value =
     (case product_id line of
        None \<Rightarrow> order_items_loop rt lines items declared_value
      | Some product \<Rightarrow>
          if is_delivery line then order_items_loop rt lines items declared_value
          else bind_exn (item_of_line rt product line) (\<lambda>(item_data, value).
                 order_items_loop rt lines (items @ [item_data]) (declared_value + value)))"

definition prepare_order_items :: "runtime \<Rightarrow> sale_order \<Rightarrow> exn + (pyval list \<times> real)" where
  "prepare_order_items rt order = order_items_loop rt (order_line order) [] 0"

text \<open>The payload dictionary of \<open>bobgo_rate_shipment\<close>.\<close>

definition rate_payload :: "carrier \<Rightarrow> pyval \<Rightarrow> pyval \<Rightarrow> pyval list \<Rightarrow> real \<Rightarrow> pyval" where
  "rate_payload self collection delivery items declared_value =
     PyDict [(''collection_address'', collection),
             (''delivery_address'', delivery),
             (''items'', PyList items),
             (''declared_value'', PyFloat declared_value),
             (''handling_time'', PyInt (py_max 0 (bobgo_handling_time self)))]"

text \<open>\<open>d.get(k, default)\<close> on the pairs of a dictionary.\<close>

definition dict_get :: "(string \<times> pyval) list \<Rightarrow> string \<Rightarrow> pyval \<Rightarrow> pyval" where
  "dict_get kvs k dflt = (case map_of kvs k of None \<Rightarrow> dflt | Some v \<Rightarrow> v)"

subsection \<open>Formatting\<close>

definition digit_char :: "nat \<Rightarrow> char" where
  "digit_char d = ''0123456789'' ! d"

fun str_nat :: "nat \<Rightarrow> string" where
  "str_nat n = (if n < 10 then [digit_char n] else str_nat (n div 10) @ [digit_char (n mod 10)])"

declare str_nat.simps [simp del]

text \<open>\<open>str(i)\<close> of an integer.\<close>

definition str_int :: "int \<Rightarrow> string" where
  "str_int i = (if i < 0 then CHR ''-'' # str_nat (nat (- i)) else str_nat (nat i))"

text \<open>\<open>str(v)\<close>; the text of a float, a list or a dictionary is the runtime's.\<close>

fun py_str :: "runtime \<Rightarrow> pyval \<Rightarrow> string" where
  "py_str rt PyNone = ''None''"
| "py_str rt (PyBool b) = (if b then ''True'' else ''False'')"
| "py_str rt (PyInt i) = str_int i"
| "py_str rt (PyStr s) = s"
| "py_str rt v = repr_of rt v"

text \<open>
  \<open>fmt % args\<close> for a tuple \<open>args\<close> whose members are already text, and a format whose
  only conversions are \<open>%s\<close> and \<open>%%\<close> (the messages of this module have no other).
  Each \<open>%s\<close> takes the next argument; running out of arguments raises \<open>TypeError\<close>
  ("not enough arguments for format string"), and so does an argument left over at the
  end ("not all arguments converted during string formatting").
\<close>

fun py_format :: "string \<Rightarrow> string list \<Rightarrow> exn + string" where
  "py_format [] args = (if args = [] then Inr [] else Inl TypeError)"
| "py_format [c] args =
     (if c = CHR ''%'' then Inl ValueError
      else bind_exn (py_format [] args) (\<lambda>rest. Inr (c # rest)))"
| "py_format (c # d # ds) args =
     (if c = CHR ''%'' then
        (if d = CHR ''s'' then
           (case args of
              [] \<Rightarrow> Inl TypeError
            | a # as \<Rightarrow> bind_exn (py_format ds as) (\<lambda>rest. Inr (a @ rest)))
         else if d = CHR ''%'' then bind_exn (py_format ds args) (\<lambda>rest. Inr (CHR ''%'' # rest))
         else Inl ValueError)
      else bind_exn (py_format (d # ds) args) (\<lambda>rest. Inr (c # rest)))"

definition error_messages :: "(int \<times> string) list" where
  "error_messages =
     [(400, ''Bad request to Bobgo API: %s''),
      (401, ''Authentication failed. Please check your Bobgo API key.''),
      (403, ''Access forbidden. Your API key may not have the required permissions.''),
      (429, ''Rate limit exceeded. Please try again later.''),
      (500, ''Bobgo API server error. Please try again later.''),
      (502, ''Bobgo API is temporarily unavailable. Please try again later.''),
      (503, ''Bobgo API service is temporarily overloaded. Please try again later.'')]"

text \<open>
  \<open>_format_http_error\<close>: \<open>error_messages.get(status_code, generic) % (status_code,
  error_detail)\<close>. The tuple has two members whichever message is looked up.
\<close>

definition format_http_error :: "int \<Rightarrow> string \<Rightarrow> exn + string" where
  "format_http_error code error_detail =
     py_format
       (case map_of error_messages code of
          None \<Rightarrow> ''Bobgo API returned error (HTTP %s): %s''
        | Some m \<Rightarrow> m)
       [str_int code, error_detail]"

text \<open>
  \<open>field in error_data\<close> and \<open>error_data[field]\<close> for a string \<open>field\<close>: a dictionary
  tests and reads its keys, a list tests its members and a string its substrings but
  neither can be indexed by a string, and the other values are no containers.
\<close>

fun py_in :: "string \<Rightarrow> pyval \<Rightarrow> exn + bool" where
  "py_in field (PyDict kvs) = Inr (map_of kvs field \<noteq> None)"
| "py_in field (PyList vs) = Inr (PyStr field \<in> set vs)"
| "py_in field (PyStr s) = Inr (contains s field)"
| "py_in field v = Inl TypeError"

fun py_getitem :: "pyval \<Rightarrow> string \<Rightarrow> exn + pyval" where
  "py_getitem (PyDict kvs) field = (case map_of kvs field of None \<Rightarrow> Inl KeyError | Some v \<Rightarrow> Inr v)"
| "py_getitem v field = Inl TypeError"

fun first_error_field :: "runtime \<Rightarrow> pyval \<Rightarrow> string list \<Rightarrow> exn + string" where
  "first_error_field rt error_data [] = Inr (py_str rt error_data)"
| "first_error_field rt error_data (field # others) =
     bind_exn (py_in field error_data) (\<lambda>found.
       if found then bind_exn (py_getitem error_data field) (\<lambda>v. Inr (py_str rt v))
       else first_error_field rt error_data others)"

definition response_json :: "response \<Rightarrow> exn + pyval" where
  "response_json r = (case json_body r of None \<Rightarrow> Inl JSONDecodeError | Some v \<Rightarrow> Inr v)"

text \<open>
  \<open>_extract_error_detail\<close>: the handler catches \<open>ValueError\<close> (the decoding error is one)
  and \<open>AttributeError\<close>.
\<close>

definition extract_error_detail :: "runtime \<Rightarrow> response \<Rightarrow> exn + string" where
  "extract_error_detail rt r =
     (case bind_exn (response_json r) (\<lambda>error_data.
             first_error_field rt error_data [''detail'', ''error'', ''message'', ''description'']) of
        Inr s \<Rightarrow> Inr s
      | Inl e \<Rightarrow>
          if e = ValueError \<or> e = JSONDecodeError \<or> e = AttributeError
          then Inr (if resp_text r \<noteq> [] then resp_text r else ''No error details available'')
          else Inl e)"

subsection \<open>The network and the framework\<close>

text \<open>
  The outcome of \<open>requests.post\<close>: a response, or one of the exceptions of the library.
  The world holds the outcome of the \<open>n\<close>-th request of the run (\<open>net\<close>), the requests
  posted so far as pairs of URL and JSON payload (\<open>sent\<close>), the wizards created
  (\<open>wizards\<close>, the values passed to \<open>create\<close>), the id of the currency record
  \<open>base.ZAR\<close>, the context of the environment, and the cache and clock described below.
\<close>

datatype http_outcome = Responds response | TimesOut | ConnectionFails | RequestFails

record world =
  net :: "nat \<Rightarrow> http_outcome"
  sent :: "(string \<times> pyval) list"
  wizards :: "pyval list"
  zar_id :: int
  env_context :: pyval
  cache_store :: "string \<Rightarrow> (pyval \<times> nat \<times> nat) option"
  now :: nat

definition requests_post :: "world \<Rightarrow> string \<Rightarrow> pyval \<Rightarrow> (exn + response) \<times> world" where
  "requests_post w url payload =
     ((case net w (length (sent w)) of
         Responds r \<Rightarrow> Inr r
       | TimesOut \<Rightarrow> Inl Timeout
       | ConnectionFails \<Rightarrow> Inl ConnectionError
       | RequestFails \<Rightarrow> Inl RequestException),
      w\<lparr>sent := sent w @ [(url, payload)]\<rparr>)"

definition raise_for_status :: "response \<Rightarrow> exn + unit" where
  "raise_for_status r =
     (if 400 \<le> status_code r \<and> status_code r < 600 then Inl (HTTPError r) else Inr ())"

text \<open>
  Modelled from the spec: the framework's cache helper behind \<open>self.env.cache\<close> is not
  part of this repository. It is taken to be a store in which a value set under a key for
  a number of seconds is returned by \<open>get\<close> within that many seconds of being set;
  \<open>get\<close> of anything else gives \<open>None\<close>.
\<close>

definition cache_get :: "world \<Rightarrow> string \<Rightarrow> pyval" where
  "cache_get w key =
     (case cache_store w key of
        None \<Rightarrow> PyNone
      | Some (v, stored_at, duration) \<Rightarrow> if now w \<le> stored_at + duration then v else PyNone)"

text \<open>
  Modelled from the spec: \<open>set\<close> of the same cache helper, which stores the value under the
  key with the time of the call and the duration.
\<close>

definition cache_set :: "world \<Rightarrow> string \<Rightarrow> pyval \<Rightarrow> nat \<Rightarrow> world" where
  "cache_set w key v duration = w\<lparr>cache_store := (cache_store w)(key \<mapsto> (v, now w, duration))\<rparr>"

definition BOBGO_CACHE_DURATION :: nat where
  "BOBGO_CACHE_DURATION = 300"

text \<open>
  What the framework supplies to the methods: the inherited \<open>rate_shipment\<close> of other
  carriers, and \<open>sale.order.set_delivery_line\<close>, which returns its success flag and the
  order as it leaves it, or raises.
\<close>

record framework =
  super_rate_shipment :: "carrier \<Rightarrow> sale_order \<Rightarrow> exn + pyval"
  set_delivery_line :: "sale_order \<Rightarrow> carrier \<Rightarrow> real \<Rightarrow> exn + (bool \<times> sale_order)"

subsection \<open>Rate quoting\<close>

text \<open>\<open>len(v)\<close> and iteration \<open>for r in v\<close>.\<close>

fun py_len :: "pyval \<Rightarrow> exn + nat" where
  "py_len (PyStr s) = Inr (length s)"
| "py_len (PyList vs) = Inr (length vs)"
| "py_len (PyDict kvs) = Inr (length kvs)"
| "py_len v = Inl TypeError"

fun py_iter :: "pyval \<Rightarrow> exn + pyval list" where
  "py_iter (PyStr s) = Inr (map (\<lambda>c. PyStr [c]) s)"
| "py_iter (PyList vs) = Inr vs"
| "py_iter (PyDict kvs) = Inr (map (\<lambda>kv. PyStr (fst kv)) kvs)"
| "py_iter v = Inl TypeError"

fun map_exn :: "('a \<Rightarrow> exn + 'b) \<Rightarrow> 'a list \<Rightarrow> exn + 'b list" where
  "map_exn f [] = Inr []"
| "map_exn f (x # xs) = bind_exn (f x) (\<lambda>y. bind_exn (map_exn f xs) (\<lambda>ys. Inr (y # ys)))"

text \<open>
  One member of \<open>line_ids\<close> in \<open>_create_rate_selection_wizard\<close>: the command
  \<open>(0, 0, values)\<close>. \<open>r.get\<close> needs a dictionary, and \<open>float\<close> may raise.
\<close>

definition rate_line_command :: "runtime \<Rightarrow> world \<Rightarrow> pyval \<Rightarrow> exn + pyval" where
  "rate_line_command rt w r =
     (case r of
        PyDict kvs \<Rightarrow>
          bind_exn (py_float rt (dict_get kvs ''total_price'' (PyFloat 0))) (\<lambda>total_price.
            Inr (PyList [PyInt 0, PyInt 0,
              PyDict [(''service_name'', dict_get kvs ''service_name'' (PyStr ''Unknown Service'')),
                      (''description'', dict_get kvs ''description'' (PyStr [])),
                      (''total_price'', PyFloat total_price),
                      (''delivery_date_min'', dict_get kvs ''min_delivery_date'' PyNone),
                      (''delivery_date_max'', dict_get kvs ''max_delivery_date'' PyNone),
                      (''service_code'', dict_get kvs ''service_code'' PyNone),
                      (''provider_slug'', dict_get kvs ''provider_slug'' PyNone),
                      (''currency_id'', PyInt (zar_id w))]]))
      | _ \<Rightarrow> Inl AttributeError)"

text \<open>
  \<open>_create_rate_selection_wizard\<close>: the wizard is created with the next id and the window
  action that opens it is returned. \<open>create\<close> is given \<open>line_ids\<close>, so the constraint
  \<open>_check_has_rates\<close> of the wizard runs: a wizard without lines raises a validation
  error and is not kept.
\<close>

definition create_rate_selection_wizard ::
  "runtime \<Rightarrow> carrier \<Rightarrow> sale_order \<Rightarrow> pyval \<Rightarrow> world \<Rightarrow> (exn + pyval) \<times> world" where
  "create_rate_selection_wizard rt self order rates w =
     (case bind_exn (py_iter rates) (map_exn (rate_line_command rt w)) of
        Inl e \<Rightarrow> (Inl e, w)
      | Inr commands \<Rightarrow>
          if commands = [] then
            (Inl (ValidationError (Msg ''No shipping rates available to choose from.'')), w)
          else
          (let wizard_id = int (length (wizards w)) + 1;
               vals = PyDict [(''order_id'', PyInt (order_id order)),
                              (''carrier_id'', PyInt (carrier_id self)),
                              (''line_ids'', PyList commands)]
           in (Inr (PyDict [(''type'', PyStr ''ir.actions.act_window''),
                            (''name'', PyStr ''Choose a Shipping Rate''),
                            (''res_model'', PyStr ''choose.bobgo.rate''),
                            (''view_mode'', PyStr ''form''),
                            (''res_id'', PyInt wizard_id),
                            (''target'', PyStr ''new''),
                            (''context'', env_context w)]),
               w\<lparr>wizards := wizards w @ [vals]\<rparr>)))"

text \<open>The body of the \<open>try\<close> block of \<open>bobgo_rate_shipment\<close>, from the request on.\<close>

definition rate_request :: "runtime \<Rightarrow> carrier \<Rightarrow> sale_order \<Rightarrow> pyval \<Rightarrow> world \<Rightarrow> (exn + pyval) \<times> world" where
  "rate_request rt self order payload w =
     (case requests_post w (rate_request_url self) payload of
        (Inl e, w1) \<Rightarrow> (Inl e, w1)
      | (Inr r, w1) \<Rightarrow>
          (case bind_exn (raise_for_status r) (\<lambda>_. response_json r) of
             Inl e \<Rightarrow> (Inl e, w1)
           | Inr (PyDict kvs) \<Rightarrow>
               (case py_len (dict_get kvs ''rates'' (PyList [])) of
                  Inl e \<Rightarrow> (Inl e, w1)
                | Inr n \<Rightarrow>
                    if \<not> truthy (dict_get kvs ''rates'' PyNone)
                    then (Inl (UserError (Msg
                      ''No shipping rates available for the given addresses. Please check the addresses or try again later.'')), w1)
                    else create_rate_selection_wizard rt self order (dict_get kvs ''rates'' PyNone) w1)
           | Inr data \<Rightarrow> (Inl AttributeError, w1)))"

text \<open>
  The \<open>except\<close> clauses of \<open>bobgo_rate_shipment\<close>, in their order: what leaves the method
  for an exception raised in the \<open>try\<close> block. The decoding error of the \<open>requests\<close>
  library is a \<open>RequestException\<close>. The clause for \<open>HTTPError\<close> calls
  \<open>_extract_error_detail\<close> and \<open>_format_http_error\<close>, and what they raise leaves the method.
\<close>

definition rate_handler :: "runtime \<Rightarrow> exn \<Rightarrow> exn" where
  "rate_handler rt e =
     (case e of
        Timeout \<Rightarrow> UserError (Msg ''Shipping rate request timed out. Please try again.'')
      | ConnectionError \<Rightarrow> UserError (Msg
          ''Cannot connect to Bobgo API. Please check your internet connection and try again.'')
      | HTTPError r \<Rightarrow>
          (case bind_exn (extract_error_detail rt r) (format_http_error (status_code r)) of
             Inl e' \<Rightarrow> e'
           | Inr m \<Rightarrow> UserError (Msg m))
      | RequestException \<Rightarrow> UserError (Caused ''Bobgo API connection failed: '' e)
      | JSONDecodeError \<Rightarrow> UserError (Caused ''Bobgo API connection failed: '' e)
      | ValueError \<Rightarrow> UserError (Msg ''Invalid response from Bobgo API. Please try again.'')
      | _ \<Rightarrow> e)"

definition bobgo_rate_shipment :: "runtime \<Rightarrow> carrier \<Rightarrow> sale_order \<Rightarrow> world \<Rightarrow> (exn + pyval) \<times> world" where
  "bobgo_rate_shipment rt self order w =
     (if order_line order = [] then
        (Inl (UserError (Msg ''Cannot calculate shipping for empty order.'')), w)
      else
        (case prepare_collection_address order of
           Inl e \<Rightarrow> (Inl e, w)
         | Inr collection \<Rightarrow>
        (case prepare_delivery_address order of
           Inl e \<Rightarrow> (Inl e, w)
         | Inr delivery \<Rightarrow>
        (case prepare_order_items rt order of
           Inl e \<Rightarrow> (Inl e, w)
         | Inr (items, declared_value) \<Rightarrow>
             if items = [] then
               (Inl (UserError (Msg ''No shippable items found in the order.'')), w)
             else
               (case rate_request rt self order
                       (rate_payload self collection delivery items declared_value) w of
                  (Inl e, w1) \<Rightarrow> (Inl (rate_handler rt e), w1)
                | (Inr action, w1) \<Rightarrow> (Inr action, w1))))))"

text \<open>
  \<open>rate_shipment\<close>. The carrier is returned because the configuration check may rewrite
  its key. A user error leaves the method; any other exception becomes the failure
  dictionary.
\<close>

definition cache_key :: "carrier \<Rightarrow> sale_order \<Rightarrow> string" where
  "cache_key self order =
     ''bobgo_rates_'' @ str_int (order_id order) @ ''_'' @ str_int (carrier_id self)"

definition rating_failed :: pyval where
  "rating_failed =
     PyDict [(''success'', PyBool False),
             (''price'', PyFloat 0),
             (''error_message'', PyStr ''Unexpected error while fetching shipping rates. Please try again.''),
             (''warning_message'', PyBool False)]"

definition rate_shipment ::
  "framework \<Rightarrow> runtime \<Rightarrow> carrier \<Rightarrow> sale_order \<Rightarrow> world \<Rightarrow> (exn + pyval) \<times> carrier \<times> world" where
  "rate_shipment fw rt self order w =
     (if delivery_type self \<noteq> ''bobgo'' then (super_rate_shipment fw self order, self, w)
      else
        (case
           (case bobgo_validate_configuration self of
              Inl e \<Rightarrow> (Inl e, self, w)
            | Inr (ok, self1) \<Rightarrow>
                (let cached_rates = cache_get w (cache_key self1 order)
                 in if truthy cached_rates then (Inr cached_rates, self1, w)
                    else
                      (case bobgo_rate_shipment rt self1 order w of
                         (Inl e, w1) \<Rightarrow> (Inl e, self1, w1)
                       | (Inr response, w1) \<Rightarrow>
                           (Inr response, self1,
                            cache_set w1 (cache_key self1 order) response BOBGO_CACHE_DURATION))))
         of
           (Inl e, self', w') \<Rightarrow>
             if is_user_error e then (Inl e, self', w') else (Inr rating_failed, self', w')
         | (Inr response, self', w') \<Rightarrow> (Inr response, self', w')))"

subsection \<open>Shipment booking\<close>

text \<open>
  A stock move with its product and, when it has a sale line, the line's
  \<open>price_total\<close>. A picking with the two fields the carrier writes (a \<open>pyval\<close>: what was
  written, \<open>False\<close> once cleared), the partner of its warehouse
  (\<open>picking_type_id.warehouse_id.partner_id\<close>) and its destination partner.
\<close>

record stock_move =
  move_product :: "product option"
  sale_line_price_total :: "real option"

record picking =
  picking_name :: string
  carrier_tracking_ref :: pyval
  bobgo_shipment_id :: pyval
  picking_warehouse_partner :: "partner option"
  picking_partner :: "partner option"
  move_ids :: "stock_move list"

text \<open>\<open>x or 10\<close> and \<open>x or 0.2\<close> on a float field, and the sum \<open>or 0\<close>.\<close>

definition float_or_int :: "real \<Rightarrow> int \<Rightarrow> pyval" where
  "float_or_int x d = (if x \<noteq> 0 then PyFloat x else PyInt d)"

definition float_or :: "real \<Rightarrow> real \<Rightarrow> pyval" where
  "float_or x d = (if x \<noteq> 0 then PyFloat x else PyFloat d)"

text \<open>The parcel of one move; \<open>display_name[:100]\<close> needs a string.\<close>

definition parcel_of :: "product \<Rightarrow> exn + pyval" where
  "parcel_of p =
     (case display_name p of
        None \<Rightarrow> Inl TypeError
      | Some n \<Rightarrow>
          Inr (PyDict [(''description'', PyStr (take 100 n)),
                       (''submitted_length_cm'', float_or_int (length_cm p) 10),
                       (''submitted_width_cm'', float_or_int (width_cm p) 10),
                       (''submitted_height_cm'', float_or_int (height_cm p) 10),
                       (''submitted_weight_kg'', float_or (weight p) (2 / 10))]))"

definition default_parcel :: pyval where
  "default_parcel =
     PyDict [(''description'', PyStr ''Default Package''),
             (''submitted_length_cm'', PyInt 10),
             (''submitted_width_cm'', PyInt 10),
             (''submitted_height_cm'', PyInt 10),
             (''submitted_weight_kg'', PyFloat (2 / 10))]"

text \<open>\<open>_get_collection_contact\<close> and \<open>_get_delivery_contact\<close> build the same dictionary.\<close>

definition contact_of :: "partner \<Rightarrow> (string \<times> pyval) list" where
  "contact_of p =
     [(''name'', PyStr (or_str (partner_name p) [])),
      (''phone'', PyStr (or_str (mobile p) (or_str (phone p) []))),
      (''email'', PyStr (or_str (email p) []))]"

definition prepare_shipment_rate_payload :: "picking \<Rightarrow> exn + pyval" where
  "prepare_shipment_rate_payload pick =
     (case picking_warehouse_partner pick of
        None \<Rightarrow> Inl (UserError (Msg ''No warehouse partner configured for this picking.''))
      | Some wp \<Rightarrow>
     (case picking_partner pick of
        None \<Rightarrow> Inl (UserError (Msg ''No delivery partner configured for this picking.''))
      | Some dp \<Rightarrow>
          bind_exn (map_exn parcel_of (List.map_filter move_product (move_ids pick))) (\<lambda>parcels.
            (let collection_contact = contact_of wp;
                 delivery_contact = contact_of dp;
                 total = sum_list (List.map_filter sale_line_price_total (move_ids pick))
             in Inr (PyDict
                  [(''collection_address'', address_of wp ''Warehouse''),
                   (''delivery_address'', address_of dp []),
                   (''parcels'', PyList (if parcels = [] then [default_parcel] else parcels)),
                   (''declared_value'', float_or_int total 0),
                   (''collection_contact_mobile_number'', dict_get collection_contact ''phone'' PyNone),
                   (''collection_contact_email'', dict_get collection_contact ''email'' PyNone),
                   (''collection_contact_full_name'', dict_get collection_contact ''name'' PyNone),
                   (''delivery_contact_mobile_number'', dict_get delivery_contact ''phone'' PyNone),
                   (''delivery_contact_email'', dict_get delivery_contact ''email'' PyNone),
                   (''delivery_contact_full_name'', dict_get delivery_contact ''name'' PyNone),
                   (''timeout'', PyInt 10000)])))))"

text \<open>\<open>_prepare_shipment_payload\<close>; \<open>rate.get\<close> needs a dictionary.\<close>

definition prepare_shipment_payload :: "picking \<Rightarrow> pyval \<Rightarrow> exn + pyval" where
  "prepare_shipment_payload pick rate =
     bind_exn (prepare_shipment_rate_payload pick) (\<lambda>picking_payload.
       (case picking_payload of
          PyDict rp \<Rightarrow>
            (case rate of
               PyDict rate_kvs \<Rightarrow>
                 Inr (PyDict
                   [(''collection_address'', dict_get rp ''collection_address'' PyNone),
                    (''collection_contact_name'', dict_get rp ''collection_contact_full_name'' PyNone),
                    (''collection_contact_mobile_number'', dict_get rp ''collection_contact_mobile_number'' PyNone),
                    (''collection_contact_email'', dict_get rp ''collection_contact_email'' PyNone),
                    (''delivery_address'', dict_get rp ''delivery_address'' PyNone),
                    (''delivery_contact_name'', dict_get rp ''delivery_contact_full_name'' PyNone),
                    (''delivery_contact_mobile_number'', dict_get rp ''delivery_contact_mobile_number'' PyNone),
                    (''delivery_contact_email'', dict_get rp ''delivery_contact_email'' PyNone),
                    (''parcels'', dict_get rp ''parcels'' PyNone),
                    (''declared_value'', dict_get rp ''declared_value'' PyNone),
                    (''timeout'', PyInt 20000),
                    (''service_level_code'', dict_get rate_kvs ''service_level_code'' PyNone),
                    (''provider_slug'', dict_get rate_kvs ''provider_slug'' PyNone)])
             | _ \<Rightarrow> Inl AttributeError)
        | _ \<Rightarrow> Inl TypeError))"

text \<open>\<open>requests.post\<close>, \<open>raise_for_status\<close> and \<open>json\<close> in a row.\<close>

definition post_json :: "world \<Rightarrow> string \<Rightarrow> pyval \<Rightarrow> (exn + pyval) \<times> world" where
  "post_json w url payload =
     (case requests_post w url payload of
        (Inl e, w1) \<Rightarrow> (Inl e, w1)
      | (Inr r, w1) \<Rightarrow> (bind_exn (raise_for_status r) (\<lambda>_. response_json r), w1))"

text \<open>\<open>v[0]\<close>: the first member of a list, the first character of a string; no key of a
  JSON object is \<open>0\<close>.\<close>

fun py_first :: "pyval \<Rightarrow> exn + pyval" where
  "py_first (PyList []) = Inl IndexError"
| "py_first (PyList (v # vs)) = Inr v"
| "py_first (PyStr []) = Inl IndexError"
| "py_first (PyStr (c # cs)) = Inr (PyStr [c])"
| "py_first (PyDict kvs) = Inl KeyError"
| "py_first v = Inl TypeError"

text \<open>
  From the decoded body of the rates response to the selected rate: the first of
  \<open>rates\<close>, whose \<open>get\<close> the next statement calls.
\<close>

definition select_rate :: "pyval \<Rightarrow> exn + (string \<times> pyval) list" where
  "select_rate rates_data =
     (case rates_data of
        PyDict kvs \<Rightarrow>
          bind_exn (py_len (dict_get kvs ''rates'' (PyList []))) (\<lambda>n.
            if \<not> truthy (dict_get kvs ''rates'' PyNone)
            then Inl (UserError (Msg ''No shipment rates available for this delivery.''))
            else bind_exn (py_first (dict_get kvs ''rates'' PyNone)) (\<lambda>selected_rate.
                   (case selected_rate of
                      PyDict rate_kvs \<Rightarrow> Inr rate_kvs
                    | _ \<Rightarrow> Inl AttributeError)))
      | _ \<Rightarrow> Inl AttributeError)"

text \<open>
  The body of the \<open>try\<close> block for one picking. It returns the entry appended to the
  result, the carrier (the configuration check may rewrite its key), the picking as
  written and the world.
\<close>

definition book_picking ::
  "runtime \<Rightarrow> carrier \<Rightarrow> picking \<Rightarrow> world \<Rightarrow> (exn + pyval) \<times> carrier \<times> picking \<times> world" where
  "book_picking rt self pick w =
     (case bobgo_validate_configuration self of
        Inl e \<Rightarrow> (Inl e, self, pick, w)
      | Inr (ok, self1) \<Rightarrow>
     (case prepare_shipment_rate_payload pick of
        Inl e \<Rightarrow> (Inl e, self1, pick, w)
      | Inr picking_payload \<Rightarrow>
     (case post_json w (urljoin (bobgo_get_api_base_url self1) ''/rates'') picking_payload of
        (Inl e, w1) \<Rightarrow> (Inl e, self1, pick, w1)
      | (Inr rates_data, w1) \<Rightarrow>
     (case select_rate rates_data of
        Inl e \<Rightarrow> (Inl e, self1, pick, w1)
      | Inr rate_kvs \<Rightarrow>
     (case prepare_shipment_payload pick (PyDict rate_kvs) of
        Inl e \<Rightarrow> (Inl e, self1, pick, w1)
      | Inr shipment_payload \<Rightarrow>
     (case post_json w1 (urljoin (bobgo_get_api_base_url self1) ''/shipments'') shipment_payload of
        (Inl e, w2) \<Rightarrow> (Inl e, self1, pick, w2)
      | (Inr (PyDict ship_kvs), w2) \<Rightarrow>
          (let tracking_reference = dict_get ship_kvs ''tracking_reference'' PyNone;
               pick' = pick\<lparr>bobgo_shipment_id := dict_get ship_kvs ''id'' PyNone,
                             carrier_tracking_ref := tracking_reference\<rparr>
           in (case py_float rt (dict_get rate_kvs ''total_price'' (PyFloat 0)) of
                 Inl e \<Rightarrow> (Inl e, self1, pick', w2)
               | Inr exact_price \<Rightarrow>
                   (Inr (PyDict [(''exact_price'', PyFloat exact_price),
                                 (''tracking_number'', tracking_reference)]),
                    self1, pick', w2)))
      | (Inr shipment_data, w2) \<Rightarrow> (Inl AttributeError, self1, pick, w2)))))))"

text \<open>
  The loop of \<open>bobgo_send_shipping\<close>: whatever the body raises is raised again as a user
  error, which ends the method. The pickings are returned as they are left.
\<close>

fun send_shipping_loop ::
  "runtime \<Rightarrow> carrier \<Rightarrow> picking list \<Rightarrow> pyval list \<Rightarrow> world
   \<Rightarrow> (exn + pyval list) \<times> carrier \<times> picking list \<times> world" where
  "send_shipping_loop rt self [] res w = (Inr res, self, [], w)"
| "send_shipping_loop rt self (pick # rest) res w =
     (case book_picking rt self pick w of
        (Inl e, self1, pick', w1) \<Rightarrow>
          (Inl (UserError (Caused (''Failed to book shipment for '' @ picking_name pick @ '': '') e)),
           self1, pick' # rest, w1)
      | (Inr entry, self1, pick', w1) \<Rightarrow>
          (case send_shipping_loop rt self1 rest (res @ [entry]) w1 of
             (r, self2, rest', w2) \<Rightarrow> (r, self2, pick' # rest', w2)))"

definition bobgo_send_shipping ::
  "runtime \<Rightarrow> carrier \<Rightarrow> picking list \<Rightarrow> world
   \<Rightarrow> (exn + pyval list) \<times> carrier \<times> picking list \<times> world" where
  "bobgo_send_shipping rt self pickings w = send_shipping_loop rt self pickings [] w"

subsection \<open>Shipment cancellation\<close>

text \<open>
  The loop of \<open>bobgo_cancel_shipment\<close> with its two lists of names. A picking without a
  tracking reference is counted as failed without a request; an exception of the request
  and a status other than 200 count the picking as failed as well.
\<close>

fun cancel_loop ::
  "carrier \<Rightarrow> picking list \<Rightarrow> string list \<Rightarrow> string list \<Rightarrow> world
   \<Rightarrow> string list \<times> string list \<times> picking list \<times> world" where
  "cancel_loop self [] successful failed w = (successful, failed, [], w)"
| "cancel_loop self (pick # rest) successful failed w =
     (if \<not> truthy (carrier_tracking_ref pick) then
        (case cancel_loop self rest successful (failed @ [picking_name pick]) w of
           (s, f, rest', w') \<Rightarrow> (s, f, pick # rest', w'))
      else
        (case requests_post w (urljoin (bobgo_get_api_base_url self) ''/shipments/cancel'')
                (PyDict [(''tracking_reference'', carrier_tracking_ref pick)]) of
           (Inl e, w1) \<Rightarrow>
             (case cancel_loop self rest successful (failed @ [picking_name pick]) w1 of
                (s, f, rest', w') \<Rightarrow> (s, f, pick # rest', w'))
         | (Inr r, w1) \<Rightarrow>
             if status_code r = 200 then
               (case cancel_loop self rest (successful @ [picking_name pick]) failed w1 of
                  (s, f, rest', w') \<Rightarrow>
                    (s, f, pick\<lparr>carrier_tracking_ref := PyBool False,
                                  bobgo_shipment_id := PyBool False\<rparr> # rest', w'))
             else
               (case cancel_loop self rest successful (failed @ [picking_name pick]) w1 of
                  (s, f, rest', w') \<Rightarrow> (s, f, pick # rest', w'))))"

text \<open>The method has no statement that raises outside its \<open>try\<close> block, whose handler
  catches every exception: the result is always a value.\<close>

definition bobgo_cancel_shipment ::
  "carrier \<Rightarrow> picking list \<Rightarrow> world \<Rightarrow> (exn + bool) \<times> picking list \<times> world" where
  "bobgo_cancel_shipment self pickings w =
     (case cancel_loop self pickings [] [] w of
        (successful, failed, pickings', w') \<Rightarrow> (Inr (length failed = 0), pickings', w'))"

subsection \<open>The rate selection wizard\<close>

text \<open>
  A line of the wizard as \<open>action_apply_rate\<close> reads it: the order and the carrier of its
  wizard, its service name and its price.
\<close>

record rate_line =
  wizard_order :: "sale_order option"
  wizard_carrier :: "carrier option"
  service_name :: "string option"
  total_price :: real





subsection \<open>Predicates the properties are stated with\<close>

definition key_empty :: "carrier \<Rightarrow> bool" where
  "key_empty self = (bobgo_api_key self = None \<or> bobgo_api_key self = Some [])"

text \<open>
  The keys the constraint rejects once they are rewritten: on a Bobgo carrier, a key
  without the prefix whose stripped length is 11 or 12, so that the prefixed key has fewer
  than 20 characters.
\<close>

definition key_rejected :: "carrier \<Rightarrow> bool" where
  "key_rejected self =
     (case bobgo_api_key self of
        None \<Rightarrow> False
      | Some k \<Rightarrow>
          delivery_type self = ''bobgo'' \<and> \<not> startswith k ''Bearer ''
          \<and> 10 < length (strip k) \<and> length (strip k) < 13)"

definition formatted_key :: "string \<Rightarrow> string" where
  "formatted_key k = (if \<not> startswith k ''Bearer '' \<and> length (strip k) > 10
                      then ''Bearer '' @ strip k else k)"

definition missing :: "string option \<Rightarrow> bool" where
  "missing x = (x = None \<or> x = Some [])"

text \<open>A runtime for the examples: it knows the float literals the examples use.\<close>

definition example_runtime :: runtime where
  "example_runtime =
     \<lparr>float_of_str = map_of [(''149.5'', 299 / 2), (''0'', 0)],
      repr_of = (\<lambda>v. ''<object>'')\<rparr>"

definition example_carrier :: carrier where
  "example_carrier =
     \<lparr>carrier_id = 7, carrier_name = Some ''Bobgo'', delivery_type = ''bobgo'',
      bobgo_api_key = Some ''  abcdefghijklmnop  '', bobgo_test_mode = True,
      bobgo_handling_time = - 3\<rparr>"

text \<open>
  \<open>mapped x d v\<close>: the JSON value \<open>v\<close> is the field \<open>x\<close> itself when the field is present,
  and the default \<open>d\<close> when it is missing.
\<close>

definition mapped :: "string option \<Rightarrow> string \<Rightarrow> pyval \<Rightarrow> bool" where
  "mapped x d v = ((missing x \<longrightarrow> v = PyStr d) \<and> (\<forall>s. x = Some s \<and> s \<noteq> [] \<longrightarrow> v = PyStr s))"

definition example_partner :: partner where
  "example_partner =
     \<lparr>partner_name = None, street = Some ''125 Dallas Avenue'', street2 = None,
      city = Some ''Pretoria'', state_code = Some ''GP'', country_code = None,
      zip_code = Some ''0181'', mobile = None, phone = Some ''0123456789'', email = None\<rparr>"

text \<open>What the claim on the items asks of one item, and of the payload.\<close>

definition float_at_least :: "(string \<times> pyval) list \<Rightarrow> string \<Rightarrow> real \<Rightarrow> bool" where
  "float_at_least kvs k bound =
     (case map_of kvs k of Some (PyFloat x) \<Rightarrow> bound \<le> x | _ \<Rightarrow> False)"

definition int_at_least :: "(string \<times> pyval) list \<Rightarrow> string \<Rightarrow> int \<Rightarrow> bool" where
  "int_at_least kvs k bound =
     (case map_of kvs k of Some (PyInt n) \<Rightarrow> bound \<le> n | _ \<Rightarrow> False)"

definition item_ok :: "pyval \<Rightarrow> bool" where
  "item_ok item =
     (case item of
        PyDict kvs \<Rightarrow>
          int_at_least kvs ''quantity'' 1
          \<and> float_at_least kvs ''length_cm'' (1 / 10)
          \<and> float_at_least kvs ''width_cm'' (1 / 10)
          \<and> float_at_least kvs ''height_cm'' (1 / 10)
          \<and> float_at_least kvs ''weight_kg'' (1 / 100)
          \<and> (case map_of kvs ''description'' of Some (PyStr d) \<Rightarrow> length d \<le> 100 | _ \<Rightarrow> False)
      | _ \<Rightarrow> False)"

definition payload_ok :: "pyval \<Rightarrow> bool" where
  "payload_ok payload =
     (case payload of
        PyDict kvs \<Rightarrow>
          (case map_of kvs ''items'' of Some (PyList items) \<Rightarrow> list_all item_ok items | _ \<Rightarrow> False)
          \<and> float_at_least kvs ''declared_value'' 0
          \<and> int_at_least kvs ''handling_time'' 0
      | _ \<Rightarrow> False)"

definition example_product :: product where
  "example_product =
     \<lparr>display_name = Some ''Desk'', length_cm = 120, width_cm = 0, height_cm = - 5,
      weight = 1 / 1000\<rparr>"

definition example_order :: sale_order where
  "example_order =
     \<lparr>order_id = 42, order_name = ''S00042'',
      order_line =
        [\<lparr>is_delivery = False, product_id = Some example_product, line_name = ''Desk'',
          price_unit = 200, product_uom_qty = 5 / 2\<rparr>,
         \<lparr>is_delivery = True, product_id = Some example_product, line_name = ''Delivery'',
          price_unit = 99, product_uom_qty = 1\<rparr>],
      warehouse_partner = Some example_partner,
      partner_shipping_id = Some example_partner\<rparr>"

text \<open>
  \<open>booked rt nt posted n pick pick' entry\<close>: the \<open>n\<close>-th request of the run was answered
  with a JSON object whose \<open>rates\<close> is a list that starts with a rate object, the next
  request was answered with a JSON object (the shipment), the picking differs from the
  one before in the two fields written, which hold the shipment's \<open>id\<close> and
  \<open>tracking_reference\<close>, the entry has the float of the first rate's \<open>total_price\<close> (of
  \<open>0.0\<close> when the rate has none) as \<open>exact_price\<close> and the tracking reference as
  \<open>tracking_number\<close>, and the payload posted with the request after the \<open>n\<close>-th is the
  shipment payload built from the first rate.
\<close>

definition booked ::
  "runtime \<Rightarrow> (nat \<Rightarrow> http_outcome) \<Rightarrow> (string \<times> pyval) list \<Rightarrow> nat
   \<Rightarrow> picking \<Rightarrow> picking \<Rightarrow> pyval \<Rightarrow> bool" where
  "booked rt nt posted n pick pick' entry =
     (case nt n of
        Responds rate_response \<Rightarrow>
          (case json_body rate_response of
             Some (PyDict kvs) \<Rightarrow>
               (case dict_get kvs ''rates'' PyNone of
                  PyList (PyDict first_rate # others) \<Rightarrow>
                    (case nt (n + 1) of
                       Responds shipment_response \<Rightarrow>
                         (case json_body shipment_response of
                            Some (PyDict shipment) \<Rightarrow>
                              pick' = pick\<lparr>bobgo_shipment_id := dict_get shipment ''id'' PyNone,
                                            carrier_tracking_ref :=
                                              dict_get shipment ''tracking_reference'' PyNone\<rparr>
                              \<and> (case py_float rt (dict_get first_rate ''total_price'' (PyFloat 0)) of
                                    Inr price \<Rightarrow>
                                      entry = PyDict [(''exact_price'', PyFloat price),
                                                      (''tracking_number'',
                                                       dict_get shipment ''tracking_reference'' PyNone)]
                                  | Inl e \<Rightarrow> False)
                              \<and> (case prepare_shipment_payload pick (PyDict first_rate) of
                                    Inr payload \<Rightarrow> snd (posted ! (n + 1)) = payload
                                  | Inl e \<Rightarrow> False)
                          | _ \<Rightarrow> False)
                     | _ \<Rightarrow> False)
                | _ \<Rightarrow> False)
           | _ \<Rightarrow> False)
      | _ \<Rightarrow> False)"

text \<open>
  The \<open>n\<close>-th request met an HTTP error status or a timeout (\<open>request_failed\<close>); it was
  answered with a status that is no error status (\<open>answered\<close>); it was not answered with
  status 200 (\<open>cancel_refused\<close>).
\<close>

definition request_failed :: "(nat \<Rightarrow> http_outcome) \<Rightarrow> nat \<Rightarrow> bool" where
  "request_failed nt n =
     (case nt n of
        Responds r \<Rightarrow> 400 \<le> status_code r \<and> status_code r < 600
      | TimesOut \<Rightarrow> True
      | _ \<Rightarrow> False)"

definition answered :: "(nat \<Rightarrow> http_outcome) \<Rightarrow> nat \<Rightarrow> bool" where
  "answered nt n =
     (case nt n of
        Responds r \<Rightarrow> \<not> (400 \<le> status_code r \<and> status_code r < 600)
      | _ \<Rightarrow> False)"

definition cancel_refused :: "(nat \<Rightarrow> http_outcome) \<Rightarrow> nat \<Rightarrow> bool" where
  "cancel_refused nt n = (case nt n of Responds r \<Rightarrow> status_code r \<noteq> 200 | _ \<Rightarrow> True)"


text \<open>Data for the examples.\<close>

definition example_picking :: picking where
  "example_picking =
     \<lparr>picking_name = ''WH/OUT/00007'', carrier_tracking_ref = PyBool False,
      bobgo_shipment_id = PyBool False,
      picking_warehouse_partner = Some example_partner,
      picking_partner = Some example_partner,
      move_ids = [\<lparr>move_product = Some example_product, sale_line_price_total = Some 1000\<rparr>]\<rparr>"

definition rates_response :: response where
  "rates_response =
     \<lparr>status_code = 200,
      json_body = Some (PyDict [(''rates'', PyList
        [PyDict [(''service_level_code'', PyStr ''ECO''), (''provider_slug'', PyStr ''demo''),
                 (''service_name'', PyStr ''Economy''), (''total_price'', PyStr ''149.5'')],
         PyDict [(''service_level_code'', PyStr ''EXP''), (''provider_slug'', PyStr ''demo''),
                 (''total_price'', PyInt 90)]])]),
      resp_text = []\<rparr>"

definition shipment_response :: response where
  "shipment_response =
     \<lparr>status_code = 200,
      json_body = Some (PyDict [(''id'', PyInt 991), (''tracking_reference'', PyStr ''BG123'')]),
      resp_text = []\<rparr>"

definition error_response :: "int \<Rightarrow> response" where
  "error_response code = \<lparr>status_code = code, json_body = None, resp_text = ''unavailable''\<rparr>"

text \<open>A world in which the first request gets the rates, the second the shipment, and
  every later one times out.\<close>

definition example_world :: world where
  "example_world =
     \<lparr>net = (\<lambda>n. if n = 0 then Responds rates_response
                  else if n = 1 then Responds shipment_response else TimesOut),
      sent = [], wizards = [], zar_id = 38, env_context = PyDict [],
      cache_store = (\<lambda>k. None), now = 1000\<rparr>"

definition example_action :: pyval where
  "example_action =
     PyDict [(''type'', PyStr ''ir.actions.act_window''),
             (''name'', PyStr ''Choose a Shipping Rate''),
             (''res_model'', PyStr ''choose.bobgo.rate''),
             (''view_mode'', PyStr ''form''),
             (''res_id'', PyInt 1),
             (''target'', PyStr ''new''),
             (''context'', PyDict [])]"

definition example_framework :: framework where
  "example_framework =
     \<lparr>super_rate_shipment = (\<lambda>c order. Inr PyNone),
      set_delivery_line = (\<lambda>order c price. Inr (True, order))\<rparr>"


definition cached_world :: world where
  "cached_world =
     example_world\<lparr>cache_store :=
       (\<lambda>k. if k = ''bobgo_rates_42_7'' then Some (example_action, 900, 300) else None)\<rparr>"

definition failing_world :: "http_outcome \<Rightarrow> world" where
  "failing_world outcome = example_world\<lparr>net := (\<lambda>n. outcome)\<rparr>"

definition tracked_picking :: picking where
  "tracked_picking = example_picking\<lparr>carrier_tracking_ref := PyStr ''BG123''\<rparr>"

section \<open>Properties\<close>

lemma split_on_not_Nil: "split_on c s \<noteq> []"
  by (induction s) (auto split: list.splits)

subsection \<open>Helper facts\<close>

lemma formatted_key_idem: "k \<noteq> [] \<Longrightarrow> formatted_key (formatted_key k) = formatted_key k"
  by (simp add: formatted_key_def startswith_def)

lemma formatted_key_not_Nil: "k \<noteq> [] \<Longrightarrow> formatted_key k \<noteq> []"
  by (simp add: formatted_key_def)

lemma dropWhile_append_keep:
  "xs \<noteq> [] \<Longrightarrow> \<not> P (hd xs) \<Longrightarrow> dropWhile P (xs @ ys) = xs @ ys"
  by (cases xs) auto

lemma strip_last: "strip k \<noteq> [] \<Longrightarrow> \<not> is_space (last (strip k))"
proof -
  let ?d = "dropWhile is_space (rev (dropWhile is_space k))"
  assume "strip k \<noteq> []"
  then have d: "?d \<noteq> []" by (simp add: strip_def)
  then have "\<not> is_space (hd ?d)" by (rule hd_dropWhile)
  moreover have "last (strip k) = hd ?d" using d by (simp add: strip_def last_rev)
  ultimately show ?thesis by simp
qed

lemma strip_prefixed:
  assumes "t \<noteq> []" and "\<not> is_space (last t)"
  shows "strip (''Bearer '' @ t) = ''Bearer '' @ t"
proof -
  have a: "dropWhile is_space (''Bearer '' @ t) = ''Bearer '' @ t"
    by (simp add: is_space_def)
  have "hd (rev t) = last t" using assms(1) by (simp add: hd_rev)
  with assms have b: "dropWhile is_space (rev t @ rev ''Bearer '') = rev t @ rev ''Bearer ''"
    using dropWhile_append_keep[of "rev t" is_space "rev ''Bearer ''"] by simp
  have "strip (''Bearer '' @ t) = rev (dropWhile is_space (rev (''Bearer '' @ t)))"
    unfolding strip_def a ..
  also have "rev (''Bearer '' @ t) = rev t @ rev ''Bearer ''" by (rule rev_append)
  also have "rev (dropWhile is_space (rev t @ rev ''Bearer '')) = ''Bearer '' @ t"
    unfolding b by simp
  finally show ?thesis .
qed

lemma length_strip_prefixed:
  "10 < length (strip k) \<Longrightarrow> length (strip (''Bearer '' @ strip k)) = 7 + length (strip k)"
proof -
  assume "10 < length (strip k)"
  then have n: "strip k \<noteq> []" by auto
  from strip_prefixed[OF n strip_last[OF n]] show ?thesis by simp
qed

lemma check_rewritten_key:
  assumes "10 < length (strip k)"
  shows "check_bobgo_api_key (self\<lparr>bobgo_api_key := Some (''Bearer '' @ strip k)\<rparr>) =
           (if delivery_type self = ''bobgo'' \<and> length (strip k) < 13
            then Inl (ValidationError (Msg
              ''API Key seems too short. Please check your Bobgo API key.''))
            else Inr ())"
  using length_strip_prefixed[OF assms] by (auto simp: check_bobgo_api_key_def)

lemma validate_rewrite:
  assumes "bobgo_api_key self = Some k" and "\<not> startswith k ''Bearer ''"
    and "10 < length (strip k)"
  shows "bobgo_validate_configuration self =
           (if delivery_type self = ''bobgo'' \<and> length (strip k) < 13
            then Inl (ValidationError (Msg
              ''API Key seems too short. Please check your Bobgo API key.''))
            else Inr (True, self\<lparr>bobgo_api_key := Some (''Bearer '' @ strip k)\<rparr>))"
proof -
  from assms(3) have "k \<noteq> []" by (auto simp: strip_def)
  with assms have "bobgo_validate_configuration self =
      (case check_bobgo_api_key (self\<lparr>bobgo_api_key := Some (''Bearer '' @ strip k)\<rparr>) of
         Inl e \<Rightarrow> Inl e
       | Inr u \<Rightarrow> Inr (True, self\<lparr>bobgo_api_key := Some (''Bearer '' @ strip k)\<rparr>))"
    by (simp add: bobgo_validate_configuration_def del: append.simps)
  then show ?thesis
    by (simp add: check_rewritten_key[OF assms(3)] del: append.simps)
qed

lemma validate_keep:
  assumes "bobgo_api_key self = Some k" and "k \<noteq> []"
    and "startswith k ''Bearer '' \<or> \<not> 10 < length (strip k)"
  shows "bobgo_validate_configuration self = Inr (True, self)"
  using assms by (auto simp: bobgo_validate_configuration_def)

lemma validate_rejected:
  "key_rejected self \<Longrightarrow>
   bobgo_validate_configuration self =
     Inl (ValidationError (Msg ''API Key seems too short. Please check your Bobgo API key.''))"
  by (auto simp: key_rejected_def validate_rewrite split: option.splits)

lemma validate_Some:
  assumes "bobgo_api_key self = Some k" and "k \<noteq> []" and "\<not> key_rejected self"
  shows "bobgo_validate_configuration self =
           Inr (True, self\<lparr>bobgo_api_key := Some (formatted_key k)\<rparr>)"
proof (cases "\<not> startswith k ''Bearer '' \<and> 10 < length (strip k)")
  case True
  with assms(1,3) have "\<not> (delivery_type self = ''bobgo'' \<and> length (strip k) < 13)"
    by (auto simp: key_rejected_def)
  with True assms(1) show ?thesis
    by (simp add: validate_rewrite formatted_key_def)
next
  case False
  then have "formatted_key k = k" by (auto simp: formatted_key_def)
  moreover have "self\<lparr>bobgo_api_key := Some k\<rparr> = self" using assms(1) by simp
  ultimately show ?thesis using validate_keep[OF assms(1,2)] False by auto
qed

lemma validate_empty:
  "key_empty self \<Longrightarrow>
   bobgo_validate_configuration self = Inl (UserError (Msg
     ''Bobgo API Key is not configured. Please set it in the delivery method configuration.''))"
  by (auto simp: key_empty_def bobgo_validate_configuration_def)

lemma empty_not_rejected: "key_empty self \<Longrightarrow> \<not> key_rejected self"
  by (auto simp: key_empty_def key_rejected_def strip_def)

lemma validate_outcomes:
  "(key_empty self \<and> (\<exists>m. bobgo_validate_configuration self = Inl (UserError m)))
   \<or> (\<not> key_empty self \<and> key_rejected self
        \<and> (\<exists>m. bobgo_validate_configuration self = Inl (ValidationError m)))
   \<or> (\<not> key_empty self \<and> \<not> key_rejected self
        \<and> (\<exists>self1. bobgo_validate_configuration self = Inr (True, self1)))"
proof (cases "key_empty self")
  case True
  then show ?thesis using validate_empty by simp
next
  case False
  then obtain k where k: "bobgo_api_key self = Some k" "k \<noteq> []"
    by (auto simp: key_empty_def)
  show ?thesis
  proof (cases "key_rejected self")
    case True
    then show ?thesis using False validate_rejected by simp
  next
    case nr: False
    from validate_Some[OF k nr] show ?thesis using False nr by simp
  qed
qed

lemma validate_Inl_iff:
  "(\<exists>m. bobgo_validate_configuration self = Inl (UserError m)) \<longleftrightarrow> key_empty self"
  using validate_outcomes[of self] by auto

lemma validate_Inl_validation_iff:
  "(\<exists>m. bobgo_validate_configuration self = Inl (ValidationError m)) \<longleftrightarrow> key_rejected self"
  using validate_outcomes[of self] empty_not_rejected[of self] by auto

lemma validate_Inl_user: "bobgo_validate_configuration self = Inl e \<Longrightarrow> is_user_error e"
  using validate_outcomes[of self] by auto

lemma validate_Inr:
  "bobgo_validate_configuration self = Inr (r, self') \<Longrightarrow>
   \<not> key_empty self \<and> \<not> key_rejected self"
  using validate_outcomes[of self] by auto

lemma formatted_key_accepted:
  assumes "bobgo_api_key self = Some k" and "\<not> key_rejected self"
  shows "\<not> key_rejected (self\<lparr>bobgo_api_key := Some (formatted_key k)\<rparr>)"
proof (cases "\<not> startswith k ''Bearer '' \<and> 10 < length (strip k)")
  case True
  then have "formatted_key k = ''Bearer '' @ strip k" by (simp add: formatted_key_def)
  then show ?thesis by (simp add: key_rejected_def startswith_def)
next
  case False
  then have "formatted_key k = k" by (auto simp: formatted_key_def)
  moreover have "self\<lparr>bobgo_api_key := Some k\<rparr> = self" using assms(1) by simp
  ultimately show ?thesis using assms(2) by simp
qed

lemma validate_twice:
  assumes "bobgo_validate_configuration self = Inr (r, self')"
  shows "bobgo_validate_configuration self' = Inr (True, self')"
proof -
  from validate_Inr[OF assms] have ne: "\<not> key_empty self" and nr: "\<not> key_rejected self"
    by simp_all
  from ne obtain k where k: "bobgo_api_key self = Some k" "k \<noteq> []"
    by (auto simp: key_empty_def)
  from validate_Some[OF k nr] assms
  have s': "self' = self\<lparr>bobgo_api_key := Some (formatted_key k)\<rparr>" by simp
  have k': "bobgo_api_key self' = Some (formatted_key k)" by (simp add: s')
  have nr': "\<not> key_rejected self'" using formatted_key_accepted[OF k(1) nr] by (simp add: s')
  from validate_Some[OF k' formatted_key_not_Nil[OF k(2)] nr']
  show ?thesis by (simp add: s' formatted_key_idem[OF k(2)])
qed

lemma mapped_or_str: "mapped x d (PyStr (or_str x d))"
  by (auto simp: mapped_def or_str_def missing_def)

lemma address_of_mapped:
  "\<exists>c sa la ci zo co cd.
     address_of p dc = PyDict [(''company'', c), (''street_address'', sa), (''local_area'', la),
                               (''city'', ci), (''zone'', zo), (''country'', co), (''code'', cd)]
     \<and> mapped (partner_name p) dc c \<and> mapped (street p) [] sa \<and> mapped (street2 p) [] la
     \<and> mapped (city p) [] ci \<and> mapped (state_code p) [] zo \<and> mapped (country_code p) ''ZA'' co
     \<and> mapped (zip_code p) [] cd"
  unfolding address_of_def using mapped_or_str by blast

lemma safe_float_PyFloat: "safe_float rt (PyFloat x) d = Inr (if x \<le> 0 then d else x)"
  by (simp add: safe_float_def)

lemma py_float_outcomes:
  "(\<exists>r. py_float rt v = Inr r) \<or> py_float rt v = Inl TypeError
   \<or> py_float rt v = Inl ValueError \<or> py_float rt v = Inl OverflowError"
  by (cases v) (auto split: option.splits)


lemma item_of_line_ok:
  "\<exists>item v. item_of_line rt p l = Inr (item, v) \<and> item_ok item \<and> 0 \<le> v"
  by (simp add: item_of_line_def safe_float_PyFloat bind_exn_def item_ok_def int_at_least_def
      float_at_least_def py_max_def)

lemma order_items_loop_ok:
  "list_all item_ok items \<Longrightarrow> 0 \<le> dv \<Longrightarrow>
   \<exists>items' dv'. order_items_loop rt ls items dv = Inr (items', dv')
     \<and> list_all item_ok items' \<and> 0 \<le> dv'"
proof (induction ls arbitrary: items dv)
  case Nil
  then show ?case by simp
next
  case (Cons l ls)
  show ?case
  proof (cases "product_id l")
    case None
    then show ?thesis using Cons by simp
  next
    case (Some p)
    show ?thesis
    proof (cases "is_delivery l")
      case True
      then show ?thesis using Some Cons by simp
    next
      case False
      from item_of_line_ok[of rt p l] obtain item v where
        iv: "item_of_line rt p l = Inr (item, v)" "item_ok item" "0 \<le> v" by blast
      have "list_all item_ok (items @ [item])" using Cons.prems(1) iv(2) by simp
      moreover have "0 \<le> dv + v" using Cons.prems(2) iv(3) by simp
      ultimately show ?thesis
        using Cons.IH[of "items @ [item]" "dv + v"] Some False iv(1)
        by (simp add: bind_exn_def)
    qed
  qed
qed

subsection \<open>Helper facts on requests\<close>

lemma requests_post_world:
  "requests_post w url payload = (r, w1) \<Longrightarrow> w1 = w\<lparr>sent := sent w @ [(url, payload)]\<rparr>"
  by (auto simp: requests_post_def)

lemma requests_post_Inr:
  "requests_post w url payload = (Inr r, w1) \<Longrightarrow> net w (length (sent w)) = Responds r"
  by (auto simp: requests_post_def split: http_outcome.splits)

lemma post_json_world:
  "post_json w url payload = (r, w1) \<Longrightarrow> w1 = w\<lparr>sent := sent w @ [(url, payload)]\<rparr>"
  by (auto simp: post_json_def requests_post_def split: http_outcome.splits)

lemma post_json_Inr:
  "post_json w url payload = (Inr v, w1) \<Longrightarrow>
   \<exists>r. net w (length (sent w)) = Responds r \<and> json_body r = Some v
       \<and> \<not> (400 \<le> status_code r \<and> status_code r < 600)"
  by (auto simp: post_json_def requests_post_def bind_exn_def raise_for_status_def
      response_json_def split: http_outcome.splits if_splits option.splits)

lemma answered_not_failed: "answered nt n \<Longrightarrow> \<not> request_failed nt n"
  by (auto simp: answered_def request_failed_def split: http_outcome.splits)

lemma failed_refused: "request_failed nt n \<Longrightarrow> cancel_refused nt n"
  by (auto simp: cancel_refused_def request_failed_def split: http_outcome.splits)

subsection \<open>Helper facts on booking\<close>

lemma py_first_Inr:
  "py_first v = Inr x \<Longrightarrow>
   (\<exists>xs. v = PyList (x # xs)) \<or> (\<exists>c cs. v = PyStr (c # cs) \<and> x = PyStr [c])"
  by (cases v rule: py_first.cases) auto

lemma select_rate_Inr:
  "select_rate rates_data = Inr first_rate \<Longrightarrow>
   \<exists>kvs others. rates_data = PyDict kvs
     \<and> dict_get kvs ''rates'' PyNone = PyList (PyDict first_rate # others)"
  unfolding select_rate_def
  by (auto simp: bind_exn_def split: pyval.splits sum.splits if_splits dest!: py_first_Inr)

lemma book_picking_Inr_steps:
  assumes "book_picking rt self pick w = (Inr entry, self1, pick', w')"
  shows "\<exists>ok rp rates_data w1 first_rate sp shipment price.
           bobgo_validate_configuration self = Inr (ok, self1)
           \<and> prepare_shipment_rate_payload pick = Inr rp
           \<and> post_json w (urljoin (bobgo_get_api_base_url self1) ''/rates'') rp = (Inr rates_data, w1)
           \<and> select_rate rates_data = Inr first_rate
           \<and> prepare_shipment_payload pick (PyDict first_rate) = Inr sp
           \<and> post_json w1 (urljoin (bobgo_get_api_base_url self1) ''/shipments'') sp
                 = (Inr (PyDict shipment), w')
           \<and> py_float rt (dict_get first_rate ''total_price'' (PyFloat 0)) = Inr price
           \<and> pick' = pick\<lparr>bobgo_shipment_id := dict_get shipment ''id'' PyNone,
                         carrier_tracking_ref := dict_get shipment ''tracking_reference'' PyNone\<rparr>
           \<and> entry = PyDict [(''exact_price'', PyFloat price),
                             (''tracking_number'', dict_get shipment ''tracking_reference'' PyNone)]"
  using assms unfolding book_picking_def
  by (auto simp: Let_def split: sum.splits prod.splits pyval.splits)

lemma book_picking_Inr:
  assumes "book_picking rt self pick w = (Inr entry, self1, pick', w')"
  shows "\<exists>posts. sent w' = sent w @ posts \<and> length posts = 2 \<and> net w' = net w
           \<and> booked rt (net w) (sent w') (length (sent w)) pick pick' entry"
proof -
  from book_picking_Inr_steps[OF assms]
  obtain ok rp rates_data w1 first_rate sp shipment price where
    rp: "prepare_shipment_rate_payload pick = Inr rp"
    and p1: "post_json w (urljoin (bobgo_get_api_base_url self1) ''/rates'') rp = (Inr rates_data, w1)"
    and sel: "select_rate rates_data = Inr first_rate"
    and sp: "prepare_shipment_payload pick (PyDict first_rate) = Inr sp"
    and p2: "post_json w1 (urljoin (bobgo_get_api_base_url self1) ''/shipments'') sp
               = (Inr (PyDict shipment), w')"
    and price: "py_float rt (dict_get first_rate ''total_price'' (PyFloat 0)) = Inr price"
    and pick': "pick' = pick\<lparr>bobgo_shipment_id := dict_get shipment ''id'' PyNone,
                         carrier_tracking_ref := dict_get shipment ''tracking_reference'' PyNone\<rparr>"
    and entry: "entry = PyDict [(''exact_price'', PyFloat price),
                             (''tracking_number'', dict_get shipment ''tracking_reference'' PyNone)]"
    by blast
  let ?u1 = "urljoin (bobgo_get_api_base_url self1) ''/rates''"
  let ?u2 = "urljoin (bobgo_get_api_base_url self1) ''/shipments''"
  have w1: "w1 = w\<lparr>sent := sent w @ [(?u1, rp)]\<rparr>" using post_json_world[OF p1] .
  have w': "w' = w1\<lparr>sent := sent w1 @ [(?u2, sp)]\<rparr>" using post_json_world[OF p2] .
  have sent': "sent w' = sent w @ [(?u1, rp), (?u2, sp)]" by (simp add: w1 w')
  have net': "net w' = net w" by (simp add: w1 w')
  from post_json_Inr[OF p1] obtain r1 where
    r1: "net w (length (sent w)) = Responds r1" "json_body r1 = Some rates_data" by blast
  from post_json_Inr[OF p2] obtain r2 where
    r2: "net w (Suc (length (sent w))) = Responds r2" "json_body r2 = Some (PyDict shipment)"
    by (auto simp: w1)
  from select_rate_Inr[OF sel] obtain kvs others where
    kvs: "rates_data = PyDict kvs"
      "dict_get kvs ''rates'' PyNone = PyList (PyDict first_rate # others)"
    by blast
  have "booked rt (net w) (sent w') (length (sent w)) pick pick' entry"
    unfolding booked_def by (simp add: r1 r2 kvs price sp pick' entry sent' nth_append)
  with sent' net' show ?thesis by simp
qed

lemma booked_later:
  assumes "booked rt nt posted n pick pick' entry" and "n + 1 < length posted"
  shows "booked rt nt (posted @ later) n pick pick' entry"
proof -
  have eq: "snd ((posted @ later) ! (n + 1)) = snd (posted ! (n + 1))"
    using assms(2) by (simp add: nth_append)
  show ?thesis using assms(1) unfolding booked_def eq .
qed

lemma send_shipping_loop_Inr:
  "send_shipping_loop rt self ps res0 w = (Inr res, self', ps', w') \<Longrightarrow>
   \<exists>new posts. res = res0 @ new \<and> length new = length ps \<and> length ps' = length ps
     \<and> sent w' = sent w @ posts \<and> length posts = 2 * length ps \<and> net w' = net w
     \<and> (\<forall>i < length ps.
           booked rt (net w) (sent w') (length (sent w) + 2 * i) (ps ! i) (ps' ! i) (new ! i))"
proof (induction ps arbitrary: self res0 w ps')
  case Nil
  then show ?case by simp
next
  case (Cons p ps)
  from Cons.prems obtain entry self1 p' w1 rest' where
    bp: "book_picking rt self p w = (Inr entry, self1, p', w1)"
    and loop: "send_shipping_loop rt self1 ps (res0 @ [entry]) w1 = (Inr res, self', rest', w')"
    and ps': "ps' = p' # rest'"
    by (auto split: prod.splits sum.splits)
  from book_picking_Inr[OF bp] obtain posts1 where
    s1: "sent w1 = sent w @ posts1" "length posts1 = 2" "net w1 = net w"
    and b1: "booked rt (net w) (sent w1) (length (sent w)) p p' entry" by blast
  from Cons.IH[OF loop] obtain new posts where
    ih: "res = (res0 @ [entry]) @ new" "length new = length ps" "length rest' = length ps"
        "sent w' = sent w1 @ posts" "length posts = 2 * length ps" "net w' = net w1"
    and bs: "\<forall>i < length ps.
           booked rt (net w1) (sent w') (length (sent w1) + 2 * i) (ps ! i) (rest' ! i) (new ! i)"
    by blast
  have b0: "booked rt (net w) (sent w') (length (sent w)) p p' entry"
    using booked_later[OF b1, of posts] s1 ih(4) by simp
  have all: "\<forall>i < length (p # ps).
           booked rt (net w) (sent w') (length (sent w) + 2 * i) ((p # ps) ! i) (ps' ! i)
             ((entry # new) ! i)"
  proof (intro allI impI)
    fix i assume i: "i < length (p # ps)"
    show "booked rt (net w) (sent w') (length (sent w) + 2 * i) ((p # ps) ! i) (ps' ! i)
             ((entry # new) ! i)"
    proof (cases i)
      case 0
      then show ?thesis using b0 ps' by simp
    next
      case (Suc j)
      then have "j < length ps" using i by simp
      with bs have
        "booked rt (net w1) (sent w') (length (sent w1) + 2 * j) (ps ! j) (rest' ! j) (new ! j)"
        by blast
      then show ?thesis using Suc s1 ps' by simp
    qed
  qed
  show ?case
    apply (rule exI[of _ "entry # new"])
    apply (rule exI[of _ "posts1 @ posts"])
    using ih s1 ps' all by simp
qed

lemma book_picking_answered:
  assumes "book_picking rt self pick w = (Inr entry, self1, pick', w')"
  shows "length (sent w') = length (sent w) + 2 \<and> net w' = net w
       \<and> answered (net w) (length (sent w)) \<and> answered (net w) (Suc (length (sent w)))"
proof -
  from book_picking_Inr_steps[OF assms]
  obtain rp rates_data w1 sp shipment where
    p1: "post_json w (urljoin (bobgo_get_api_base_url self1) ''/rates'') rp = (Inr rates_data, w1)"
    and p2: "post_json w1 (urljoin (bobgo_get_api_base_url self1) ''/shipments'') sp
               = (Inr (PyDict shipment), w')"
    by blast
  note w1 = post_json_world[OF p1] and w' = post_json_world[OF p2]
  from post_json_Inr[OF p1] have a1: "answered (net w) (length (sent w))"
    by (auto simp: answered_def)
  from post_json_Inr[OF p2] have a2: "answered (net w) (Suc (length (sent w)))"
    by (auto simp: answered_def w1)
  show ?thesis using a1 a2 by (simp add: w1 w')
qed

lemma send_shipping_loop_Inl:
  "send_shipping_loop rt self ps res0 w = (Inl e, self', ps', w') \<Longrightarrow> \<exists>m. e = UserError m"
  by (induction ps arbitrary: self res0 w ps') (auto split: prod.splits sum.splits)

lemma send_shipping_loop_answered:
  "send_shipping_loop rt self ps res0 w = (Inr res, self', ps', w') \<Longrightarrow>
   net w' = net w \<and> length (sent w) \<le> length (sent w')
   \<and> (\<forall>n. length (sent w) \<le> n \<and> n < length (sent w') \<longrightarrow> answered (net w) n)"
proof (induction ps arbitrary: self res0 w ps')
  case Nil
  then show ?case by auto
next
  case (Cons p ps)
  from Cons.prems obtain entry self1 p' w1 rest' where
    bp: "book_picking rt self p w = (Inr entry, self1, p', w1)"
    and loop: "send_shipping_loop rt self1 ps (res0 @ [entry]) w1 = (Inr res, self', rest', w')"
    by (auto split: prod.splits sum.splits)
  note b = book_picking_answered[OF bp]
  note ih = Cons.IH[OF loop]
  show ?case
  proof (intro conjI allI impI)
    show "net w' = net w" using b ih by simp
    show "length (sent w) \<le> length (sent w')" using b ih by simp
  next
    fix n assume n: "length (sent w) \<le> n \<and> n < length (sent w')"
    show "answered (net w) n"
    proof (cases "n < length (sent w1)")
      case True
      with n b have "n = length (sent w) \<or> n = Suc (length (sent w))" by auto
      with b show ?thesis by auto
    next
      case False
      with n ih have "answered (net w1) n" by simp
      with b show ?thesis by simp
    qed
  qed
qed

lemma send_shipping_raises:
  assumes "bobgo_send_shipping rt self pickings w = (res, self', pickings', w')"
    and "length (sent w) \<le> n" and "n < length (sent w')" and "request_failed (net w) n"
  shows "\<exists>m. res = Inl (UserError m)"
proof (cases res)
  case (Inl e)
  with assms(1) show ?thesis
    using send_shipping_loop_Inl[of rt self pickings "[]" w e self' pickings' w']
    by (simp add: bobgo_send_shipping_def)
next
  case (Inr r)
  with assms(1) have "answered (net w) n"
    using send_shipping_loop_answered[of rt self pickings "[]" w r self' pickings' w'] assms(2,3)
    by (simp add: bobgo_send_shipping_def)
  with assms(4) answered_not_failed show ?thesis by blast
qed

subsection \<open>Helper facts on cancellation\<close>

lemma cancel_loop_failed:
  "cancel_loop self ps s f w = (s', f', ps', w') \<Longrightarrow>
   net w' = net w \<and> length (sent w) \<le> length (sent w')
   \<and> (f \<noteq> [] \<longrightarrow> f' \<noteq> [])
   \<and> (\<forall>n. length (sent w) \<le> n \<and> n < length (sent w') \<and> cancel_refused (net w) n
          \<longrightarrow> f' \<noteq> [])"
proof (induction ps arbitrary: s f w s' f' ps' w')
  case Nil
  then show ?case by auto
next
  case (Cons p ps)
  show ?case
  proof (cases "truthy (carrier_tracking_ref p)")
    case False
    with Cons.prems obtain rest' where
      loop: "cancel_loop self ps s (f @ [picking_name p]) w = (s', f', rest', w')"
      by (auto split: prod.splits)
    from Cons.IH[OF loop] show ?thesis by auto
  next
    case True
    let ?url = "urljoin (bobgo_get_api_base_url self) ''/shipments/cancel''"
    let ?pl = "PyDict [(''tracking_reference'', carrier_tracking_ref p)]"
    obtain out w1 where post: "requests_post w ?url ?pl = (out, w1)"
      by (cases "requests_post w ?url ?pl")
    note w1 = requests_post_world[OF post]
    have len: "length (sent w1) = Suc (length (sent w))" and net1: "net w1 = net w"
      by (simp_all add: w1)
    show ?thesis
    proof (cases "\<exists>r. out = Inr r \<and> status_code r = 200")
      case True
      then obtain r where r: "out = Inr r" "status_code r = 200" by blast
      with Cons.prems \<open>truthy (carrier_tracking_ref p)\<close> post obtain rest' where
        loop: "cancel_loop self ps (s @ [picking_name p]) f w1 = (s', f', rest', w')"
        by (auto split: prod.splits)
      from requests_post_Inr[OF post[unfolded r(1)]] r(2)
      have ok: "\<not> cancel_refused (net w) (length (sent w))" by (simp add: cancel_refused_def)
      note ih = Cons.IH[OF loop]
      show ?thesis
      proof (intro conjI allI impI)
        show "net w' = net w" using ih net1 by simp
        show "length (sent w) \<le> length (sent w')" using ih len by simp
        show "f' \<noteq> []" if "f \<noteq> []" using ih that by simp
      next
        fix n
        assume n: "length (sent w) \<le> n \<and> n < length (sent w') \<and> cancel_refused (net w) n"
        with ok have "n \<noteq> length (sent w)" by auto
        with n len have "length (sent w1) \<le> n" by simp
        with n ih net1 show "f' \<noteq> []" by auto
      qed
    next
      case False
      with Cons.prems \<open>truthy (carrier_tracking_ref p)\<close> post obtain rest' where
        loop: "cancel_loop self ps s (f @ [picking_name p]) w1 = (s', f', rest', w')"
        by (cases out) (auto split: prod.splits if_splits)
      note ih = Cons.IH[OF loop]
      show ?thesis using ih len net1 by auto
    qed
  qed
qed

lemma cancel_shipment_returns:
  assumes "bobgo_cancel_shipment self pickings w = (res, pickings', w')"
  shows "(\<exists>b. res = Inr b)
       \<and> (\<forall>n. length (sent w) \<le> n \<and> n < length (sent w') \<and> cancel_refused (net w) n
              \<longrightarrow> res = Inr False)"
proof -
  obtain s' f' where loop: "cancel_loop self pickings [] [] w = (s', f', pickings', w')"
    and res: "res = Inr (length f' = 0)"
    using assms by (auto simp: bobgo_cancel_shipment_def split: prod.splits)
  from cancel_loop_failed[OF loop] res show ?thesis by auto
qed

subsection \<open>Helper facts on rate quoting\<close>

lemma format_http_error_generic:
  "map_of error_messages code = None \<Longrightarrow>
   format_http_error code detail =
     Inr (''Bobgo API returned error (HTTP '' @ str_int code @ ''): '' @ detail)"
  by (simp add: format_http_error_def bind_exn_def)

lemma not_in_table:
  "code \<notin> {400, 401, 403, 429, 500, 502, 503} \<Longrightarrow> map_of error_messages code = None"
  by (simp add: error_messages_def)

lemma first_error_field_dict:
  "\<exists>d. first_error_field rt (PyDict kvs) fs = Inr d"
proof (induction fs)
  case Nil
  then show ?case by simp
next
  case (Cons f fs)
  then show ?case by (cases "map_of kvs f") (simp_all add: bind_exn_def)
qed

lemma extract_error_detail_returns:
  assumes "json_body r = None \<or> (\<exists>kvs. json_body r = Some (PyDict kvs))"
  shows "\<exists>d. extract_error_detail rt r = Inr d"
proof (cases "json_body r")
  case None
  then show ?thesis by (simp add: extract_error_detail_def response_json_def bind_exn_def)
next
  case (Some v)
  with assms obtain kvs where v: "v = PyDict kvs" by auto
  from first_error_field_dict[of rt kvs "[''detail'', ''error'', ''message'', ''description'']"]
  obtain d where
    "first_error_field rt (PyDict kvs) [''detail'', ''error'', ''message'', ''description''] = Inr d"
    by blast
  then show ?thesis using Some v
    by (simp add: extract_error_detail_def response_json_def bind_exn_def)
qed

lemma rate_handler_Timeout: "\<exists>m. rate_handler rt Timeout = UserError m"
  by (simp add: rate_handler_def)

lemma rate_handler_HTTPError:
  assumes "status_code r \<notin> {400, 401, 403, 429, 500, 502, 503}"
    and "json_body r = None \<or> (\<exists>kvs. json_body r = Some (PyDict kvs))"
  shows "\<exists>m. rate_handler rt (HTTPError r) = UserError m"
proof -
  from extract_error_detail_returns[OF assms(2)] obtain d where
    d: "extract_error_detail rt r = Inr d" by blast
  show ?thesis
    by (simp add: rate_handler_def d bind_exn_def
        format_http_error_generic[OF not_in_table[OF assms(1)]])
qed

lemma rate_request_outcome:
  assumes "rate_request rt self order payload w = (res, w')"
  shows "(net w (length (sent w)) = TimesOut \<longrightarrow> res = Inl Timeout)
       \<and> (\<forall>r. net w (length (sent w)) = Responds r \<and> 400 \<le> status_code r \<and> status_code r < 600
              \<longrightarrow> res = Inl (HTTPError r))"
  using assms
  by (auto simp: rate_request_def requests_post_def raise_for_status_def bind_exn_def)

lemma bobgo_rate_shipment_cases:
  assumes "bobgo_rate_shipment rt self order w = (res, w')"
  shows "sent w' = sent w
       \<or> (\<exists>payload r1. rate_request rt self order payload w = (r1, w')
             \<and> res = (case r1 of Inl e \<Rightarrow> Inl (rate_handler rt e) | Inr a \<Rightarrow> Inr a))"
  using assms unfolding bobgo_rate_shipment_def
  by (auto split: if_splits sum.splits prod.splits)

lemma rate_shipment_raises:
  assumes "bobgo_rate_shipment rt self order w = (res, w')" and "sent w' \<noteq> sent w"
  shows "(net w (length (sent w)) = TimesOut \<longrightarrow> (\<exists>m. res = Inl (UserError m)))
       \<and> (\<forall>r. net w (length (sent w)) = Responds r
              \<and> 400 \<le> status_code r \<and> status_code r < 600
              \<and> status_code r \<notin> {400, 401, 403, 429, 500, 502, 503}
              \<and> (json_body r = None \<or> (\<exists>kvs. json_body r = Some (PyDict kvs)))
              \<longrightarrow> (\<exists>m. res = Inl (UserError m)))"
proof -
  from bobgo_rate_shipment_cases[OF assms(1)] assms(2) obtain payload r1 where
    rr: "rate_request rt self order payload w = (r1, w')"
    and res: "res = (case r1 of Inl e \<Rightarrow> Inl (rate_handler rt e) | Inr a \<Rightarrow> Inr a)" by blast
  note out = rate_request_outcome[OF rr]
  show ?thesis
  proof (intro conjI allI impI)
    assume "net w (length (sent w)) = TimesOut"
    with out have "r1 = Inl Timeout" by blast
    then show "\<exists>m. res = Inl (UserError m)" using res rate_handler_Timeout[of rt] by simp
  next
    fix r
    assume a: "net w (length (sent w)) = Responds r
              \<and> 400 \<le> status_code r \<and> status_code r < 600
              \<and> status_code r \<notin> {400, 401, 403, 429, 500, 502, 503}
              \<and> (json_body r = None \<or> (\<exists>kvs. json_body r = Some (PyDict kvs)))"
    with out have "r1 = Inl (HTTPError r)" by blast
    moreover from a rate_handler_HTTPError[of r rt]
    have "\<exists>m. rate_handler rt (HTTPError r) = UserError m" by blast
    ultimately show "\<exists>m. res = Inl (UserError m)" using res by auto
  qed
qed

lemma create_wizard_sent:
  "create_rate_selection_wizard rt self order rates w = (r, w1) \<Longrightarrow> sent w1 = sent w"
  by (auto simp: create_rate_selection_wizard_def Let_def split: sum.splits if_splits)

lemma rate_request_sent:
  "rate_request rt self order payload w = (r, w') \<Longrightarrow>
   sent w' = sent w @ [(rate_request_url self, payload)]"
  unfolding rate_request_def
  by (auto simp: requests_post_def split: prod.splits sum.splits pyval.splits if_splits
      http_outcome.splits dest!: create_wizard_sent)

lemma bobgo_rate_shipment_posts:
  assumes "bobgo_rate_shipment rt self order w = (res, w')" and "sent w' \<noteq> sent w"
  shows "\<exists>collection delivery items declared_value.
           prepare_order_items rt order = Inr (items, declared_value)
           \<and> sent w' = sent w @ [(rate_request_url self,
                 rate_payload self collection delivery items declared_value)]"
  using assms unfolding bobgo_rate_shipment_def
  by (auto split: if_splits sum.splits prod.splits dest!: rate_request_sent)

subsection \<open>Helper facts on the cache\<close>

lemma validate_frame:
  assumes "bobgo_validate_configuration self = Inr (r, self1)"
  shows "r = True \<and> carrier_id self1 = carrier_id self \<and> delivery_type self1 = delivery_type self"
proof -
  from validate_Inr[OF assms] have ne: "\<not> key_empty self" and nr: "\<not> key_rejected self"
    by simp_all
  from ne obtain k where k: "bobgo_api_key self = Some k" "k \<noteq> []"
    by (auto simp: key_empty_def)
  from validate_Some[OF k nr] assms show ?thesis by auto
qed

lemma validate_returns:
  "\<not> key_empty self \<Longrightarrow> \<not> key_rejected self \<Longrightarrow>
   \<exists>self1. bobgo_validate_configuration self = Inr (True, self1)"
  using validate_outcomes[of self] by auto

lemma cache_key_validated:
  "bobgo_validate_configuration self = Inr (r, self1) \<Longrightarrow>
   cache_key self1 order = cache_key self order"
  using validate_frame[of self r self1] by (simp add: cache_key_def)

lemma create_wizard_truthy:
  "create_rate_selection_wizard rt self order rates w = (Inr a, w1) \<Longrightarrow> truthy a"
  by (auto simp: create_rate_selection_wizard_def Let_def split: sum.splits if_splits)

lemma rate_request_truthy:
  "rate_request rt self order payload w = (Inr a, w1) \<Longrightarrow> truthy a"
  unfolding rate_request_def
  by (auto split: prod.splits sum.splits pyval.splits if_splits dest: create_wizard_truthy)

lemma bobgo_rate_shipment_truthy:
  "bobgo_rate_shipment rt self order w = (Inr a, w1) \<Longrightarrow> truthy a"
  unfolding bobgo_rate_shipment_def
  by (auto split: prod.splits sum.splits if_splits dest: rate_request_truthy)

lemma cache_get_hit:
  "cache_store w key = Some (v, t0, d) \<Longrightarrow> now w \<le> t0 + d \<Longrightarrow> cache_get w key = v"
  by (simp add: cache_get_def)

lemma cache_get_after_set:
  "t \<le> now w + d \<Longrightarrow> cache_get ((cache_set w key v d)\<lparr>now := t\<rparr>) key = v"
  by (simp add: cache_get_def cache_set_def)

lemma rate_shipment_hit:
  assumes "delivery_type self = ''bobgo''"
    and "bobgo_validate_configuration self = Inr (ok, self1)"
    and "truthy (cache_get w (cache_key self order))"
  shows "rate_shipment fw rt self order w = (Inr (cache_get w (cache_key self order)), self1, w)"
  using assms cache_key_validated[OF assms(2), of order]
  by (simp add: rate_shipment_def Let_def)

lemma rate_shipment_miss:
  assumes "delivery_type self = ''bobgo''"
    and "bobgo_validate_configuration self = Inr (ok, self1)"
    and "\<not> truthy (cache_get w (cache_key self order))"
    and "bobgo_rate_shipment rt self1 order w = (Inr response, w1)"
  shows "rate_shipment fw rt self order w =
           (Inr response, self1, cache_set w1 (cache_key self order) response BOBGO_CACHE_DURATION)"
  using assms cache_key_validated[OF assms(2), of order]
  by (simp add: rate_shipment_def Let_def)

subsection \<open>The request URL\<close>

lemma rate_request_url_value:
  "rate_request_url self =
     (if bobgo_test_mode self then ''https://api.sandbox.bobgo.co.za/rates-at-checkout''
      else ''https://api.bobgo.co.za/rates-at-checkout'')"
  unfolding rate_request_url_def bobgo_get_api_base_url_def
  by (simp add: urljoin_def urlparse_def urlunparse_def uses_relative_def uses_netloc_def
      is_alpha_def is_scheme_char_def lower_char_def Let_def)

text \<open>
  C5. The rate request is posted to \<open>urljoin(base_url, "/rates-at-checkout")\<close>, the base
  being the sandbox or the production URL, both ending in \<open>/v2\<close>; the claim concludes that
  the request URL contains the \<open>/v2\<close> segment. The reference \<open>/rates-at-checkout\<close> is an
  absolute path, so \<open>urljoin\<close> replaces the whole path of the base: in both modes the
  URL is the host followed by \<open>/rates-at-checkout\<close>, and \<open>/v2\<close> occurs nowhere in it. That
  URL is the one of the request \<open>bobgo_rate_shipment\<close> posts, when it posts one.
\<close>

theorem rate_request_url_drops_version:
  "rate_request_url self =
     (if bobgo_test_mode self then ''https://api.sandbox.bobgo.co.za/rates-at-checkout''
      else ''https://api.bobgo.co.za/rates-at-checkout'')
   \<and> \<not> contains (rate_request_url self) ''/v2''
   \<and> (\<forall>res w'. bobgo_rate_shipment rt self order w = (res, w') \<and> sent w' \<noteq> sent w \<longrightarrow>
        (\<exists>payload. sent w' = sent w @ [(rate_request_url self, payload)]))"
proof (intro conjI allI impI)
  show "rate_request_url self =
     (if bobgo_test_mode self then ''https://api.sandbox.bobgo.co.za/rates-at-checkout''
      else ''https://api.bobgo.co.za/rates-at-checkout'')"
    by (rule rate_request_url_value)
  show "\<not> contains (rate_request_url self) ''/v2''"
    by (simp add: rate_request_url_value startswith_def)
next
  fix res w'
  assume "bobgo_rate_shipment rt self order w = (res, w') \<and> sent w' \<noteq> sent w"
  then show "\<exists>payload. sent w' = sent w @ [(rate_request_url self, payload)]"
    using bobgo_rate_shipment_posts[of rt self order w res w'] by blast
qed

theorem rate_request_url_drops_version_witness:
  "sent (snd (bobgo_rate_shipment example_runtime example_carrier example_order example_world))
     \<noteq> sent example_world
   \<and> (\<exists>payload.
        sent (snd (bobgo_rate_shipment example_runtime example_carrier example_order example_world))
          = [(''https://api.sandbox.bobgo.co.za/rates-at-checkout'', payload)])"
proof -
  let ?run = "bobgo_rate_shipment example_runtime example_carrier example_order example_world"
  have l: "length (sent (snd ?run)) = 1" by code_simp
  have s0: "sent example_world = []" by (simp add: example_world_def)
  have n: "sent (snd ?run) \<noteq> sent example_world" using l s0 by auto
  have t: "bobgo_test_mode example_carrier" by (simp add: example_carrier_def)
  have "\<exists>payload. sent (snd ?run) = sent example_world @ [(rate_request_url example_carrier, payload)]"
    using rate_request_url_drops_version[of example_carrier example_runtime example_order example_world] n
    by (cases ?run) auto
  moreover have "rate_request_url example_carrier = ''https://api.sandbox.bobgo.co.za/rates-at-checkout''"
    using rate_request_url_drops_version[of example_carrier example_runtime example_order example_world] t
    by simp
  ultimately have e: "\<exists>payload.
        sent (snd ?run) = [(''https://api.sandbox.bobgo.co.za/rates-at-checkout'', payload)]"
    using s0 by simp
  show ?thesis by (rule conjI[OF n e])
qed

subsection \<open>Configuration check\<close>

text \<open>
  C10, as amended. \<open>bobgo_validate_configuration\<close> raises its user error exactly when the
  API key is empty. It raises the validation error of the key constraint exactly when the
  carrier is a Bobgo carrier whose key does not start with \<open>"Bearer "\<close> and has a stripped
  length of 11 or 12: the key is rewritten and the rewritten key is shorter than 20
  characters. It raises in no other case. Otherwise it returns \<open>True\<close> and the carrier
  differs from the one it was called on in \<open>bobgo_api_key\<close> only: the key becomes
  \<open>"Bearer "\<close> followed by the stripped key when it does not start with \<open>"Bearer "\<close> and its
  stripped length exceeds 10, and stays as it is otherwise. A second call on the result
  changes nothing.
\<close>

theorem validate_configuration_frame:
  "((\<exists>m. bobgo_validate_configuration self = Inl (UserError m)) \<longleftrightarrow> key_empty self)
   \<and> ((\<exists>m. bobgo_validate_configuration self = Inl (ValidationError m)) \<longleftrightarrow> key_rejected self)
   \<and> (\<forall>e. bobgo_validate_configuration self = Inl e \<longrightarrow> key_empty self \<or> key_rejected self)
   \<and> (\<forall>k. bobgo_api_key self = Some k \<and> k \<noteq> [] \<and> \<not> key_rejected self \<longrightarrow>
        bobgo_validate_configuration self =
          Inr (True, self\<lparr>bobgo_api_key :=
            Some (if \<not> startswith k ''Bearer '' \<and> length (strip k) > 10
                  then ''Bearer '' @ strip k else k)\<rparr>))
   \<and> (\<forall>r self'. bobgo_validate_configuration self = Inr (r, self') \<longrightarrow>
        bobgo_validate_configuration self' = Inr (True, self'))"
proof (intro conjI allI impI)
  show "(\<exists>m. bobgo_validate_configuration self = Inl (UserError m)) \<longleftrightarrow> key_empty self"
    by (rule validate_Inl_iff)
  show "(\<exists>m. bobgo_validate_configuration self = Inl (ValidationError m)) \<longleftrightarrow> key_rejected self"
    by (rule validate_Inl_validation_iff)
next
  fix e assume "bobgo_validate_configuration self = Inl e"
  then show "key_empty self \<or> key_rejected self"
    using validate_outcomes[of self] by auto
next
  fix k assume "bobgo_api_key self = Some k \<and> k \<noteq> [] \<and> \<not> key_rejected self"
  then show "bobgo_validate_configuration self =
          Inr (True, self\<lparr>bobgo_api_key :=
            Some (if \<not> startswith k ''Bearer '' \<and> length (strip k) > 10
                  then ''Bearer '' @ strip k else k)\<rparr>)"
    using validate_Some[of self k] unfolding formatted_key_def by blast
next
  fix r self' assume "bobgo_validate_configuration self = Inr (r, self')"
  then show "bobgo_validate_configuration self' = Inr (True, self')"
    by (rule validate_twice)
qed

theorem validate_configuration_frame_witness:
  "bobgo_api_key example_carrier = Some ''  abcdefghijklmnop  ''
   \<and> \<not> key_empty example_carrier \<and> \<not> key_rejected example_carrier
   \<and> bobgo_validate_configuration example_carrier =
       Inr (True, example_carrier\<lparr>bobgo_api_key := Some ''Bearer abcdefghijklmnop''\<rparr>)
   \<and> bobgo_validate_configuration
         (example_carrier\<lparr>bobgo_api_key := Some ''Bearer abcdefghijklmnop''\<rparr>) =
       Inr (True, example_carrier\<lparr>bobgo_api_key := Some ''Bearer abcdefghijklmnop''\<rparr>)
   \<and> key_empty (example_carrier\<lparr>bobgo_api_key := None\<rparr>)
   \<and> (\<exists>m. bobgo_validate_configuration (example_carrier\<lparr>bobgo_api_key := None\<rparr>) =
           Inl (UserError m))
   \<and> key_rejected (example_carrier\<lparr>bobgo_api_key := Some ''abcdefghijkl''\<rparr>)
   \<and> (\<exists>m. bobgo_validate_configuration
             (example_carrier\<lparr>bobgo_api_key := Some ''abcdefghijkl''\<rparr>) =
           Inl (ValidationError m))"
proof -
  let ?ok = "example_carrier\<lparr>bobgo_api_key := Some ''Bearer abcdefghijklmnop''\<rparr>"
  let ?none = "example_carrier\<lparr>bobgo_api_key := None\<rparr>"
  let ?short = "example_carrier\<lparr>bobgo_api_key := Some ''abcdefghijkl''\<rparr>"
  have k: "bobgo_api_key example_carrier = Some ''  abcdefghijklmnop  ''"
    by (simp add: example_carrier_def)
  have ne: "\<not> key_empty example_carrier" by (simp add: example_carrier_def key_empty_def)
  have nr: "\<not> key_rejected example_carrier" by code_simp
  have s: "strip ''  abcdefghijklmnop  '' = ''abcdefghijklmnop''" by code_simp
  have p: "\<not> startswith ''  abcdefghijklmnop  '' ''Bearer ''" by code_simp
  have v1: "bobgo_validate_configuration example_carrier = Inr (True, ?ok)"
    using validate_configuration_frame[of example_carrier] k nr s p by simp
  have v2: "bobgo_validate_configuration ?ok = Inr (True, ?ok)"
    using validate_configuration_frame[of example_carrier] v1 by blast
  have e: "key_empty ?none" by (simp add: key_empty_def)
  have ve: "\<exists>m. bobgo_validate_configuration ?none = Inl (UserError m)"
    using validate_configuration_frame[of ?none] e by blast
  have r: "key_rejected ?short" by code_simp
  have vr: "\<exists>m. bobgo_validate_configuration ?short = Inl (ValidationError m)"
    using validate_configuration_frame[of ?short] r by blast
  show ?thesis
    by (rule conjI[OF k conjI[OF ne conjI[OF nr conjI[OF v1 conjI[OF v2 conjI[OF e
          conjI[OF ve conjI[OF r vr]]]]]]]])
qed

text \<open>
  The claim as stated, that the method raises exactly when the key is empty and returns
  \<open>True\<close> otherwise, fails on a Bobgo carrier with the 12-character key \<open>abcdefghijkl\<close>:
  the key is not empty, it is rewritten to the 19-character \<open>Bearer abcdefghijkl\<close>, and
  the constraint on the key raises a validation error.
\<close>

theorem validate_configuration_counterexample:
  "\<not> key_empty (example_carrier\<lparr>bobgo_api_key := Some ''abcdefghijkl''\<rparr>)
   \<and> delivery_type (example_carrier\<lparr>bobgo_api_key := Some ''abcdefghijkl''\<rparr>) = ''bobgo''
   \<and> bobgo_validate_configuration (example_carrier\<lparr>bobgo_api_key := Some ''abcdefghijkl''\<rparr>) =
       Inl (ValidationError (Msg ''API Key seems too short. Please check your Bobgo API key.''))"
  by code_simp

subsection \<open>Addresses\<close>

text \<open>
  C7. \<open>_prepare_collection_address\<close> and \<open>_prepare_delivery_address\<close> raise a user error
  when the order has no warehouse partner, respectively no shipping partner. Otherwise
  the address object has the seven keys of the source in order, each holding its partner
  field when the field is present and its default when the field is missing: the empty
  string for street, street2, city, state code and zip, \<open>"ZA"\<close> for the country code,
  \<open>"Warehouse"\<close> for the warehouse partner's name and the empty string for the shipping
  partner's name.
\<close>

theorem address_builders:
  "(warehouse_partner order = None \<longrightarrow>
      (\<exists>m. prepare_collection_address order = Inl (UserError m)))
   \<and> (partner_shipping_id order = None \<longrightarrow>
      (\<exists>m. prepare_delivery_address order = Inl (UserError m)))
   \<and> (\<forall>p. warehouse_partner order = Some p \<longrightarrow>
      (\<exists>c sa la ci zo co cd.
         prepare_collection_address order =
           Inr (PyDict [(''company'', c), (''street_address'', sa), (''local_area'', la),
                        (''city'', ci), (''zone'', zo), (''country'', co), (''code'', cd)])
         \<and> mapped (partner_name p) ''Warehouse'' c \<and> mapped (street p) [] sa
         \<and> mapped (street2 p) [] la \<and> mapped (city p) [] ci \<and> mapped (state_code p) [] zo
         \<and> mapped (country_code p) ''ZA'' co \<and> mapped (zip_code p) [] cd))
   \<and> (\<forall>p. partner_shipping_id order = Some p \<longrightarrow>
      (\<exists>c sa la ci zo co cd.
         prepare_delivery_address order =
           Inr (PyDict [(''company'', c), (''street_address'', sa), (''local_area'', la),
                        (''city'', ci), (''zone'', zo), (''country'', co), (''code'', cd)])
         \<and> mapped (partner_name p) [] c \<and> mapped (street p) [] sa
         \<and> mapped (street2 p) [] la \<and> mapped (city p) [] ci \<and> mapped (state_code p) [] zo
         \<and> mapped (country_code p) ''ZA'' co \<and> mapped (zip_code p) [] cd))"
proof (intro conjI allI impI)
  assume "warehouse_partner order = None"
  then show "\<exists>m. prepare_collection_address order = Inl (UserError m)"
    by (simp add: prepare_collection_address_def)
next
  assume "partner_shipping_id order = None"
  then show "\<exists>m. prepare_delivery_address order = Inl (UserError m)"
    by (simp add: prepare_delivery_address_def)
next
  fix p assume "warehouse_partner order = Some p"
  then have "prepare_collection_address order = Inr (address_of p ''Warehouse'')"
    by (simp add: prepare_collection_address_def)
  with address_of_mapped[of p "''Warehouse''"]
  show "\<exists>c sa la ci zo co cd.
         prepare_collection_address order =
           Inr (PyDict [(''company'', c), (''street_address'', sa), (''local_area'', la),
                        (''city'', ci), (''zone'', zo), (''country'', co), (''code'', cd)])
         \<and> mapped (partner_name p) ''Warehouse'' c \<and> mapped (street p) [] sa
         \<and> mapped (street2 p) [] la \<and> mapped (city p) [] ci \<and> mapped (state_code p) [] zo
         \<and> mapped (country_code p) ''ZA'' co \<and> mapped (zip_code p) [] cd"
    by simp
next
  fix p assume "partner_shipping_id order = Some p"
  then have "prepare_delivery_address order = Inr (address_of p [])"
    by (simp add: prepare_delivery_address_def)
  with address_of_mapped[of p "[]"]
  show "\<exists>c sa la ci zo co cd.
         prepare_delivery_address order =
           Inr (PyDict [(''company'', c), (''street_address'', sa), (''local_area'', la),
                        (''city'', ci), (''zone'', zo), (''country'', co), (''code'', cd)])
         \<and> mapped (partner_name p) [] c \<and> mapped (street p) [] sa
         \<and> mapped (street2 p) [] la \<and> mapped (city p) [] ci \<and> mapped (state_code p) [] zo
         \<and> mapped (country_code p) ''ZA'' co \<and> mapped (zip_code p) [] cd"
    by simp
qed

theorem address_builders_witness:
  "warehouse_partner example_order = Some example_partner
   \<and> partner_shipping_id example_order = Some example_partner
   \<and> prepare_collection_address example_order =
       Inr (PyDict [(''company'', PyStr ''Warehouse''),
                    (''street_address'', PyStr ''125 Dallas Avenue''),
                    (''local_area'', PyStr []), (''city'', PyStr ''Pretoria''),
                    (''zone'', PyStr ''GP''), (''country'', PyStr ''ZA''),
                    (''code'', PyStr ''0181'')])
   \<and> prepare_delivery_address example_order =
       Inr (PyDict [(''company'', PyStr []),
                    (''street_address'', PyStr ''125 Dallas Avenue''),
                    (''local_area'', PyStr []), (''city'', PyStr ''Pretoria''),
                    (''zone'', PyStr ''GP''), (''country'', PyStr ''ZA''),
                    (''code'', PyStr ''0181'')])
   \<and> warehouse_partner (example_order\<lparr>warehouse_partner := None\<rparr>) = None
   \<and> (\<exists>m. prepare_collection_address (example_order\<lparr>warehouse_partner := None\<rparr>) =
            Inl (UserError m))"
  using address_builders[of example_order]
    address_builders[of "example_order\<lparr>warehouse_partner := None\<rparr>"]
  by (simp add: example_order_def example_partner_def mapped_def missing_def)

subsection \<open>Safe conversion to float\<close>

text \<open>
  C8, as amended. For every input on which \<open>float\<close> returns or raises \<open>TypeError\<close> or
  \<open>ValueError\<close>, \<open>_safe_float\<close> returns: \<open>float(value)\<close> when that is strictly positive, and
  the default when the value is \<open>None\<close>, when \<open>float\<close> raises \<open>TypeError\<close> or \<open>ValueError\<close>
  (the value is not convertible), or when \<open>float(value)\<close> is at most zero. The statement
  says nothing of an input on which \<open>float\<close> raises \<open>OverflowError\<close>.
\<close>

theorem safe_float_returns:
  "(\<forall>r. py_float rt v = Inr r \<and> 0 < r \<longrightarrow> safe_float rt v d = Inr r)
   \<and> (v = PyNone \<or> py_float rt v = Inl TypeError \<or> py_float rt v = Inl ValueError
        \<or> (\<exists>r. py_float rt v = Inr r \<and> r \<le> 0) \<longrightarrow> safe_float rt v d = Inr d)
   \<and> (py_float rt v \<noteq> Inl OverflowError \<longrightarrow> (\<exists>r. safe_float rt v d = Inr r))"
proof (cases "v = PyNone")
  case True
  then show ?thesis by (simp add: safe_float_def)
next
  case False
  from py_float_outcomes[of rt v] consider
    (ok) r where "py_float rt v = Inr r"
    | (type_error) "py_float rt v = Inl TypeError"
    | (value_error) "py_float rt v = Inl ValueError"
    | (overflow) "py_float rt v = Inl OverflowError"
    by blast
  then show ?thesis
  proof cases
    case (ok r)
    then show ?thesis using False by (simp add: safe_float_def)
  next
    case type_error
    then show ?thesis using False by (simp add: safe_float_def)
  next
    case value_error
    then show ?thesis using False by (simp add: safe_float_def)
  next
    case overflow
    then show ?thesis using False by (simp add: safe_float_def)
  qed
qed

theorem safe_float_returns_witness:
  "py_float example_runtime (PyStr ''149.5'') = Inr (299 / 2)
   \<and> safe_float example_runtime (PyStr ''149.5'') 10 = Inr (299 / 2)
   \<and> py_float example_runtime (PyStr ''abc'') = Inl ValueError
   \<and> safe_float example_runtime (PyStr ''abc'') 10 = Inr 10
   \<and> py_float example_runtime (PyInt (- 4)) = Inr (- 4)
   \<and> safe_float example_runtime (PyInt (- 4)) 10 = Inr 10
   \<and> safe_float example_runtime PyNone 10 = Inr 10"
  using safe_float_returns[of example_runtime "PyStr ''149.5''" 10]
    safe_float_returns[of example_runtime "PyStr ''abc''" 10]
    safe_float_returns[of example_runtime "PyInt (- 4)" 10]
    safe_float_returns[of example_runtime PyNone 10]
  by (simp add: example_runtime_def)

text \<open>
  The claim as stated, that \<open>_safe_float\<close> never raises, fails on the integer \<open>2 ^ 1024\<close>:
  \<open>float\<close> raises \<open>OverflowError\<close>, which the handler does not catch.
\<close>

theorem safe_float_overflow_counterexample:
  "safe_float example_runtime (PyInt (2 ^ 1024)) 10 = Inl OverflowError"
  by (simp add: safe_float_def)

subsection \<open>Items and payload of a rate request\<close>

text \<open>
  C9. \<open>_prepare_order_items\<close> returns for every order, and in the payload that
  \<open>bobgo_rate_shipment\<close> builds from its result every item has an integer quantity of at
  least 1, length, width and height of at least 0.1, a weight of at least 0.01 and a
  description of at most 100 characters; the declared value is not negative, and the
  handling time is a non-negative integer whatever the carrier's handling time is. The
  request that \<open>bobgo_rate_shipment\<close> posts, when it posts one, carries such a payload.
\<close>

theorem order_items_within_bounds:
  "(\<exists>items declared_value.
      prepare_order_items rt order = Inr (items, declared_value)
      \<and> payload_ok (rate_payload self collection delivery items declared_value))
   \<and> (\<forall>res w'. bobgo_rate_shipment rt self order w = (res, w') \<and> sent w' \<noteq> sent w \<longrightarrow>
        (\<exists>payload. sent w' = sent w @ [(rate_request_url self, payload)] \<and> payload_ok payload))"
proof (intro conjI allI impI)
  from order_items_loop_ok[of "[]" 0 rt "order_line order"]
  obtain items dv where
    "prepare_order_items rt order = Inr (items, dv)" "list_all item_ok items" "0 \<le> dv"
    by (auto simp: prepare_order_items_def)
  then show "\<exists>items declared_value.
      prepare_order_items rt order = Inr (items, declared_value)
      \<and> payload_ok (rate_payload self collection delivery items declared_value)"
    by (auto simp: payload_ok_def rate_payload_def float_at_least_def int_at_least_def py_max_def)
next
  fix res w'
  assume a: "bobgo_rate_shipment rt self order w = (res, w') \<and> sent w' \<noteq> sent w"
  then obtain c d items dv where
    p: "prepare_order_items rt order = Inr (items, dv)"
    and s: "sent w' = sent w @ [(rate_request_url self, rate_payload self c d items dv)]"
    using bobgo_rate_shipment_posts[of rt self order w res w'] by blast
  from order_items_loop_ok[of "[]" 0 rt "order_line order"] p
  have "list_all item_ok items" "0 \<le> dv"
    by (auto simp: prepare_order_items_def)
  then have "payload_ok (rate_payload self c d items dv)"
    by (auto simp: payload_ok_def rate_payload_def float_at_least_def int_at_least_def py_max_def)
  with s show "\<exists>payload. sent w' = sent w @ [(rate_request_url self, payload)] \<and> payload_ok payload"
    by blast
qed

theorem order_items_within_bounds_witness:
  "sent (snd (bobgo_rate_shipment example_runtime example_carrier example_order example_world))
     \<noteq> sent example_world
   \<and> (\<exists>payload.
        sent (snd (bobgo_rate_shipment example_runtime example_carrier example_order example_world))
          = sent example_world @ [(rate_request_url example_carrier, payload)]
        \<and> payload_ok payload)
   \<and> prepare_order_items example_runtime example_order =
       Inr ([PyDict [(''description'', PyStr ''Desk''), (''price'', PyFloat 200),
                     (''quantity'', PyInt 2), (''length_cm'', PyFloat 120),
                     (''width_cm'', PyFloat 10), (''height_cm'', PyFloat 10),
                     (''weight_kg'', PyFloat (1 / 100))]], 500)
   \<and> bobgo_handling_time example_carrier = - 3"
proof -
  let ?run = "bobgo_rate_shipment example_runtime example_carrier example_order example_world"
  have l: "length (sent (snd ?run)) = 1" by code_simp
  have s0: "sent example_world = []" by (simp add: example_world_def)
  have n: "sent (snd ?run) \<noteq> sent example_world" using l s0 by auto
  have e: "\<exists>payload. sent (snd ?run) = sent example_world @ [(rate_request_url example_carrier, payload)]
        \<and> payload_ok payload"
    using order_items_within_bounds[of example_runtime example_order example_carrier _ _ example_world] n
    by (cases ?run) auto
  have p: "prepare_order_items example_runtime example_order =
       Inr ([PyDict [(''description'', PyStr ''Desk''), (''price'', PyFloat 200),
                     (''quantity'', PyInt 2), (''length_cm'', PyFloat 120),
                     (''width_cm'', PyFloat 10), (''height_cm'', PyFloat 10),
                     (''weight_kg'', PyFloat (1 / 100))]], 500)"
    by code_simp
  have h: "bobgo_handling_time example_carrier = - 3" by (simp add: example_carrier_def)
  show ?thesis by (rule conjI[OF n conjI[OF e conjI[OF p h]]])
qed

subsection \<open>Shipment booking\<close>

text \<open>
  C1. Whenever the body of the loop of \<open>bobgo_send_shipping\<close> completes for a picking, and
  for every picking of a call that returns: the rates response is a JSON object whose
  \<open>rates\<close> list starts with the rate that is selected (the shipment payload posted next is
  built from it), the picking is written with the shipment response's \<open>id\<close> as
  \<open>bobgo_shipment_id\<close> and its \<open>tracking_reference\<close> as \<open>carrier_tracking_ref\<close>, and the entry
  appended for the picking has the float of the first rate's \<open>total_price\<close> (0.0 when the
  rate has none) as \<open>exact_price\<close> and the tracking reference as \<open>tracking_number\<close>. The
  returned list has one entry for each picking, in order.
\<close>

theorem send_shipping_books:
  "(\<forall>entry self1 pick' w1.
      book_picking rt self pick w = (Inr entry, self1, pick', w1) \<longrightarrow>
      booked rt (net w) (sent w1) (length (sent w)) pick pick' entry)
   \<and> (\<forall>res self' pickings' w'.
      bobgo_send_shipping rt self pickings w = (Inr res, self', pickings', w') \<longrightarrow>
      length res = length pickings \<and> length pickings' = length pickings
      \<and> (\<forall>i < length pickings.
            booked rt (net w) (sent w') (length (sent w) + 2 * i)
              (pickings ! i) (pickings' ! i) (res ! i)))"
proof (intro conjI allI impI)
  fix entry self1 pick' w1
  assume "book_picking rt self pick w = (Inr entry, self1, pick', w1)"
  from book_picking_Inr[OF this]
  show "booked rt (net w) (sent w1) (length (sent w)) pick pick' entry" by blast
next
  fix res self' pickings' w'
  assume a: "bobgo_send_shipping rt self pickings w = (Inr res, self', pickings', w')"
  from send_shipping_loop_Inr[of rt self pickings "[]" w res self' pickings' w'] a
  obtain new posts where n: "res = new" "length new = length pickings"
    "length pickings' = length pickings"
    "\<forall>i < length pickings.
       booked rt (net w) (sent w') (length (sent w) + 2 * i) (pickings ! i) (pickings' ! i) (new ! i)"
    unfolding bobgo_send_shipping_def by auto
  show "length res = length pickings" using n by simp
  show "length pickings' = length pickings" using n by simp
  fix i assume "i < length pickings"
  with n show "booked rt (net w) (sent w') (length (sent w) + 2 * i)
              (pickings ! i) (pickings' ! i) (res ! i)" by simp
qed

theorem send_shipping_books_witness:
  "\<exists>self' pickings' w'.
     bobgo_send_shipping example_runtime example_carrier [example_picking] example_world =
       (Inr [PyDict [(''exact_price'', PyFloat (299 / 2)), (''tracking_number'', PyStr ''BG123'')]],
        self', pickings', w')
     \<and> pickings' =
         [example_picking\<lparr>bobgo_shipment_id := PyInt 991, carrier_tracking_ref := PyStr ''BG123''\<rparr>]
     \<and> booked example_runtime (net example_world) (sent w') 0 example_picking (pickings' ! 0)
         (PyDict [(''exact_price'', PyFloat (299 / 2)), (''tracking_number'', PyStr ''BG123'')])"
proof -
  let ?run = "bobgo_send_shipping example_runtime example_carrier [example_picking] example_world"
  let ?entry = "PyDict [(''exact_price'', PyFloat (299 / 2)), (''tracking_number'', PyStr ''BG123'')]"
  have r: "fst ?run = Inr [?entry]" by code_simp
  have p: "fst (snd (snd ?run)) =
     [example_picking\<lparr>bobgo_shipment_id := PyInt 991, carrier_tracking_ref := PyStr ''BG123''\<rparr>]"
    by code_simp
  have s: "sent example_world = []" by (simp add: example_world_def)
  obtain self' pickings' w' where run: "?run = (Inr [?entry], self', pickings', w')"
    using r by (cases ?run) auto
  from send_shipping_books[of example_runtime example_carrier example_picking example_world
      "[example_picking]"] run
  have "booked example_runtime (net example_world) (sent w') (length (sent example_world) + 2 * 0)
          ([example_picking] ! 0) (pickings' ! 0) ([?entry] ! 0)"
    by auto
  then have "booked example_runtime (net example_world) (sent w') 0 example_picking (pickings' ! 0) ?entry"
    by (simp add: s)
  moreover have "pickings' =
     [example_picking\<lparr>bobgo_shipment_id := PyInt 991, carrier_tracking_ref := PyStr ''BG123''\<rparr>]"
    using p run by simp
  ultimately show ?thesis using run by blast
qed

subsection \<open>The message of an HTTP error\<close>

text \<open>
  C2. The claim: on an HTTP error status of the rate request the message of the user error
  is the entry of the table for the statuses 400, 401, 403, 429, 500, 502 and 503, and the
  generic message otherwise. \<open>_format_http_error\<close> formats the message it looked up with
  the pair of status and detail; each message of the table has fewer than two
  placeholders, so for each of the seven statuses the formatting raises \<open>TypeError\<close> and
  no message is produced, whatever the detail. On a rate request answered with status
  401 the \<open>TypeError\<close> leaves \<open>bobgo_rate_shipment\<close>, and \<open>rate_shipment\<close> returns its
  failure dictionary: no user error is raised.
\<close>

theorem format_http_error_table_raises:
  "format_http_error 400 detail = Inl TypeError
   \<and> format_http_error 401 detail = Inl TypeError
   \<and> format_http_error 403 detail = Inl TypeError
   \<and> format_http_error 429 detail = Inl TypeError
   \<and> format_http_error 500 detail = Inl TypeError
   \<and> format_http_error 502 detail = Inl TypeError
   \<and> format_http_error 503 detail = Inl TypeError
   \<and> fst (bobgo_rate_shipment example_runtime example_carrier example_order
            (failing_world (Responds (error_response 401)))) = Inl TypeError
   \<and> fst (rate_shipment example_framework example_runtime example_carrier example_order
            (failing_world (Responds (error_response 401)))) = Inr rating_failed"
proof -
  have a: "format_http_error 400 detail = Inl TypeError
   \<and> format_http_error 401 detail = Inl TypeError
   \<and> format_http_error 403 detail = Inl TypeError
   \<and> format_http_error 429 detail = Inl TypeError
   \<and> format_http_error 500 detail = Inl TypeError
   \<and> format_http_error 502 detail = Inl TypeError
   \<and> format_http_error 503 detail = Inl TypeError"
    by (simp add: format_http_error_def error_messages_def bind_exn_def)
  have b: "fst (bobgo_rate_shipment example_runtime example_carrier example_order
            (failing_world (Responds (error_response 401)))) = Inl TypeError"
    by code_simp
  have c: "fst (rate_shipment example_framework example_runtime example_carrier example_order
            (failing_world (Responds (error_response 401)))) = Inr rating_failed"
    by code_simp
  show ?thesis using a b c by simp
qed

subsection \<open>Failures of the API\<close>

text \<open>
  C3, as amended. Rate quoting that has posted its request raises a user error when the
  request times out, and when it is answered with an HTTP error status other than 400,
  401, 403, 429, 500, 502 and 503 and a body that is not JSON or is a JSON object. Shipment
  booking raises a user error when one of the requests it has posted timed out or was
  answered with an HTTP error status. Shipment cancellation never raises: when one of the
  requests it has posted timed out or was answered with an HTTP error status, it
  returns \<open>False\<close>.
\<close>

theorem api_failures:
  "(\<forall>res w'. bobgo_rate_shipment rt self order w = (res, w') \<and> sent w' \<noteq> sent w \<longrightarrow>
      (net w (length (sent w)) = TimesOut \<longrightarrow> (\<exists>m. res = Inl (UserError m)))
      \<and> (\<forall>r. net w (length (sent w)) = Responds r
             \<and> 400 \<le> status_code r \<and> status_code r < 600
             \<and> status_code r \<notin> {400, 401, 403, 429, 500, 502, 503}
             \<and> (json_body r = None \<or> (\<exists>kvs. json_body r = Some (PyDict kvs)))
             \<longrightarrow> (\<exists>m. res = Inl (UserError m))))
   \<and> (\<forall>res self' pickings' w' n.
        bobgo_send_shipping rt self pickings w = (res, self', pickings', w')
        \<and> length (sent w) \<le> n \<and> n < length (sent w') \<and> request_failed (net w) n
        \<longrightarrow> (\<exists>m. res = Inl (UserError m)))
   \<and> (\<forall>res pickings' w'.
        bobgo_cancel_shipment self pickings w = (res, pickings', w') \<longrightarrow>
        (\<exists>b. res = Inr b)
        \<and> (\<forall>n. length (sent w) \<le> n \<and> n < length (sent w') \<and> request_failed (net w) n
               \<longrightarrow> res = Inr False))"
proof (intro conjI allI impI)
  fix res w'
  assume a: "bobgo_rate_shipment rt self order w = (res, w') \<and> sent w' \<noteq> sent w"
  then have r: "(net w (length (sent w)) = TimesOut \<longrightarrow> (\<exists>m. res = Inl (UserError m)))
       \<and> (\<forall>r. net w (length (sent w)) = Responds r
              \<and> 400 \<le> status_code r \<and> status_code r < 600
              \<and> status_code r \<notin> {400, 401, 403, 429, 500, 502, 503}
              \<and> (json_body r = None \<or> (\<exists>kvs. json_body r = Some (PyDict kvs)))
              \<longrightarrow> (\<exists>m. res = Inl (UserError m)))"
    using rate_shipment_raises[of rt self order w res w'] by blast
  show "\<exists>m. res = Inl (UserError m)" if "net w (length (sent w)) = TimesOut"
    using r that by blast
  show "\<exists>m. res = Inl (UserError m)"
    if "net w (length (sent w)) = Responds r
             \<and> 400 \<le> status_code r \<and> status_code r < 600
             \<and> status_code r \<notin> {400, 401, 403, 429, 500, 502, 503}
             \<and> (json_body r = None \<or> (\<exists>kvs. json_body r = Some (PyDict kvs)))" for r
    using r that by blast
next
  fix res self' pickings' w' n
  assume "bobgo_send_shipping rt self pickings w = (res, self', pickings', w')
        \<and> length (sent w) \<le> n \<and> n < length (sent w') \<and> request_failed (net w) n"
  then show "\<exists>m. res = Inl (UserError m)"
    using send_shipping_raises[of rt self pickings w res self' pickings' w' n] by blast
next
  fix res pickings' w'
  assume a: "bobgo_cancel_shipment self pickings w = (res, pickings', w')"
  note c = cancel_shipment_returns[OF a]
  show "\<exists>b. res = Inr b" using c by blast
  show "res = Inr False"
    if "length (sent w) \<le> n \<and> n < length (sent w') \<and> request_failed (net w) n" for n
    using c that failed_refused[of "net w" n] by blast
qed

theorem api_failures_witness:
  "net (failing_world TimesOut) (length (sent (failing_world TimesOut))) = TimesOut
   \<and> sent (snd (bobgo_rate_shipment example_runtime example_carrier example_order
             (failing_world TimesOut))) \<noteq> sent (failing_world TimesOut)
   \<and> (\<exists>m. fst (bobgo_rate_shipment example_runtime example_carrier example_order
             (failing_world TimesOut)) = Inl (UserError m))
   \<and> request_failed (net (failing_world (Responds (error_response 404)))) 0
   \<and> length (sent (snd (snd (snd (bobgo_send_shipping example_runtime example_carrier
             [example_picking] (failing_world (Responds (error_response 404)))))))) = 1
   \<and> (\<exists>m. fst (bobgo_send_shipping example_runtime example_carrier [example_picking]
             (failing_world (Responds (error_response 404)))) = Inl (UserError m))
   \<and> fst (bobgo_cancel_shipment example_carrier [tracked_picking]
             (failing_world (Responds (error_response 404)))) = Inr False"
proof -
  let ?wt = "failing_world TimesOut"
  let ?we = "failing_world (Responds (error_response 404))"
  let ?rate = "bobgo_rate_shipment example_runtime example_carrier example_order ?wt"
  let ?send = "bobgo_send_shipping example_runtime example_carrier [example_picking] ?we"
  let ?cancel = "bobgo_cancel_shipment example_carrier [tracked_picking] ?we"
  have t: "net ?wt (length (sent ?wt)) = TimesOut"
    by (simp add: failing_world_def example_world_def)
  have s0: "sent ?wt = []" "sent ?we = []" by (simp_all add: failing_world_def example_world_def)
  have f: "request_failed (net ?we) 0"
    by (simp add: failing_world_def example_world_def request_failed_def error_response_def)
  have l1: "length (sent (snd ?rate)) = 1" by code_simp
  have l2: "length (sent (snd (snd (snd ?send)))) = 1" by code_simp
  have l3: "length (sent (snd (snd ?cancel))) = 1" by code_simp
  have n1: "sent (snd ?rate) \<noteq> sent ?wt" using l1 s0 by auto
  have 1: "\<exists>m. fst ?rate = Inl (UserError m)"
    using api_failures[of example_runtime example_carrier example_order ?wt] t n1
    by (cases ?rate) auto
  have 2: "\<exists>m. fst ?send = Inl (UserError m)"
  proof -
    obtain res self' ps' w' where e: "?send = (res, self', ps', w')" by (cases ?send) auto
    have "length (sent ?we) \<le> 0 \<and> 0 < length (sent w') \<and> request_failed (net ?we) 0"
      using l2 s0 f e by simp
    with api_failures[of example_runtime example_carrier example_order ?we "[example_picking]"] e
    have "\<exists>m. res = Inl (UserError m)" by blast
    with e show ?thesis by simp
  qed
  have 3: "fst ?cancel = Inr False"
  proof -
    obtain res ps' w' where e: "?cancel = (res, ps', w')" by (cases ?cancel) auto
    have "length (sent ?we) \<le> 0 \<and> 0 < length (sent w') \<and> request_failed (net ?we) 0"
      using l3 s0 f e by simp
    with api_failures[of example_runtime example_carrier example_order ?we "[tracked_picking]"] e
    have "res = Inr False" by blast
    with e show ?thesis by simp
  qed
  show ?thesis using t n1 1 f l2 2 3 by blast
qed

text \<open>
  The claim as stated fails for cancellation: with a picking that has a tracking reference
  and an API that answers every request with status 500, \<open>bobgo_cancel_shipment\<close> posts one
  request and returns \<open>False\<close>; nothing is raised.
\<close>

theorem cancel_shipment_counterexample:
  "request_failed (net (failing_world (Responds (error_response 500)))) 0
   \<and> length (sent (snd (snd (bobgo_cancel_shipment example_carrier [tracked_picking]
        (failing_world (Responds (error_response 500))))))) = 1
   \<and> fst (bobgo_cancel_shipment example_carrier [tracked_picking]
        (failing_world (Responds (error_response 500)))) = Inr False"
  by code_simp

subsection \<open>Applying a rate\<close>



subsection \<open>The rate cache\<close>

text \<open>
  C6, as amended. For every sale order and every Bobgo carrier whose API key is
  configured and is not one the key constraint rejects on being rewritten (so that the
  configuration check returns): if the cache holds under the key of the pair a rates
  response (a value that counts as true, as every response of \<open>bobgo_rate_shipment\<close>
  does) that was stored no more than its duration ago (the 300 seconds of every response
  this method stores), \<open>rate_shipment\<close> returns that response and leaves the world as it
  is, so no request is posted, and so it does whenever the cache gives a response for the
  key; otherwise, when \<open>bobgo_rate_shipment\<close> returns a response, \<open>rate_shipment\<close> returns
  it and stores it for 300 seconds under the key made of the order id and the carrier id,
  and a call at any time up to 300 seconds later returns the stored response without
  posting a request.
\<close>

theorem rate_shipment_cache:
  assumes "delivery_type self = ''bobgo''" and "\<not> key_empty self" and "\<not> key_rejected self"
  shows "\<exists>self1. bobgo_validate_configuration self = Inr (True, self1)
     \<and> cache_key self order =
         ''bobgo_rates_'' @ str_int (order_id order) @ ''_'' @ str_int (carrier_id self)
     \<and> (\<forall>v t0 d. cache_store w (cache_key self order) = Some (v, t0, d) \<and> now w \<le> t0 + d
                 \<and> truthy v \<longrightarrow>
           rate_shipment fw rt self order w = (Inr v, self1, w))
     \<and> (truthy (cache_get w (cache_key self order)) \<longrightarrow>
           rate_shipment fw rt self order w = (Inr (cache_get w (cache_key self order)), self1, w))
     \<and> (\<forall>response w1. \<not> truthy (cache_get w (cache_key self order))
            \<and> bobgo_rate_shipment rt self1 order w = (Inr response, w1) \<longrightarrow>
           rate_shipment fw rt self order w =
             (Inr response, self1, cache_set w1 (cache_key self order) response 300)
           \<and> (\<forall>t. t \<le> now w1 + 300 \<longrightarrow>
                 rate_shipment fw rt self1 order
                   ((cache_set w1 (cache_key self order) response 300)\<lparr>now := t\<rparr>) =
                 (Inr response, self1,
                  (cache_set w1 (cache_key self order) response 300)\<lparr>now := t\<rparr>)))"
proof -
  from validate_returns[OF assms(2) assms(3)] obtain self1 where
    v: "bobgo_validate_configuration self = Inr (True, self1)" by blast
  note v1 = validate_twice[OF v]
  note fr = validate_frame[OF v]
  have bobgo1: "delivery_type self1 = ''bobgo''" using fr assms(1) by simp
  have key1: "cache_key self1 order = cache_key self order" using cache_key_validated[OF v] .
  show ?thesis
  proof (intro exI[of _ self1] conjI allI impI)
    show "bobgo_validate_configuration self = Inr (True, self1)" by (rule v)
  next
    show "cache_key self order =
         ''bobgo_rates_'' @ str_int (order_id order) @ ''_'' @ str_int (carrier_id self)"
      by (simp add: cache_key_def)
  next
    fix v' t0 d
    assume a: "cache_store w (cache_key self order) = Some (v', t0, d) \<and> now w \<le> t0 + d
                 \<and> truthy v'"
    then have "cache_get w (cache_key self order) = v'" using cache_get_hit by blast
    with a rate_shipment_hit[OF assms(1) v, of w order fw rt]
    show "rate_shipment fw rt self order w = (Inr v', self1, w)" by simp
  next
    assume "truthy (cache_get w (cache_key self order))"
    then show "rate_shipment fw rt self order w =
        (Inr (cache_get w (cache_key self order)), self1, w)"
      by (rule rate_shipment_hit[OF assms(1) v])
  next
    fix response w1
    assume a: "\<not> truthy (cache_get w (cache_key self order))
            \<and> bobgo_rate_shipment rt self1 order w = (Inr response, w1)"
    then show "rate_shipment fw rt self order w =
             (Inr response, self1, cache_set w1 (cache_key self order) response 300)"
      using rate_shipment_miss[OF assms(1) v, of w order rt response w1 fw]
      by (simp add: BOBGO_CACHE_DURATION_def)
  next
    fix response w1 t
    assume a: "\<not> truthy (cache_get w (cache_key self order))
            \<and> bobgo_rate_shipment rt self1 order w = (Inr response, w1)"
      and t: "t \<le> now w1 + 300"
    let ?w2 = "(cache_set w1 (cache_key self order) response 300)\<lparr>now := t\<rparr>"
    have tr: "truthy response" using a bobgo_rate_shipment_truthy by blast
    have g: "cache_get ?w2 (cache_key self order) = response"
      using cache_get_after_set[OF t] .
    from rate_shipment_hit[OF bobgo1 v1, of ?w2 order fw rt] g tr key1
    show "rate_shipment fw rt self1 order ?w2 = (Inr response, self1, ?w2)" by simp
  qed
qed

theorem rate_shipment_cache_witness:
  "delivery_type example_carrier = ''bobgo'' \<and> \<not> key_empty example_carrier
   \<and> \<not> key_rejected example_carrier
   \<and> cache_store cached_world (cache_key example_carrier example_order) =
       Some (example_action, 900, 300)
   \<and> now cached_world \<le> 900 + 300 \<and> truthy example_action
   \<and> fst (rate_shipment example_framework example_runtime example_carrier example_order
            cached_world) = Inr example_action
   \<and> snd (snd (rate_shipment example_framework example_runtime example_carrier example_order
            cached_world)) = cached_world
   \<and> \<not> truthy (cache_get example_world (cache_key example_carrier example_order))
   \<and> fst (rate_shipment example_framework example_runtime example_carrier example_order
            example_world) = Inr example_action"
proof -
  have h: "delivery_type example_carrier = ''bobgo''" "\<not> key_empty example_carrier"
    by (simp_all add: example_carrier_def key_empty_def)
  have nr: "\<not> key_rejected example_carrier" by code_simp
  have k: "cache_key example_carrier example_order = ''bobgo_rates_42_7''" by code_simp
  have c: "cache_store cached_world (cache_key example_carrier example_order) =
       Some (example_action, 900, 300)"
    by (simp add: k cached_world_def)
  have n: "now cached_world \<le> 900 + 300" by (simp add: cached_world_def example_world_def)
  have tr: "truthy example_action" by (simp add: example_action_def)
  have m: "\<not> truthy (cache_get example_world (cache_key example_carrier example_order))"
    by (simp add: cache_get_def example_world_def)
  from rate_shipment_cache[OF h nr, of example_order cached_world example_framework
      example_runtime]
  obtain self1 where s: "bobgo_validate_configuration example_carrier = Inr (True, self1)"
    and hit: "rate_shipment example_framework example_runtime example_carrier example_order
                cached_world = (Inr example_action, self1, cached_world)"
    using c n tr by blast
  have fresh: "fst (rate_shipment example_framework example_runtime example_carrier example_order
            example_world) = Inr example_action"
    by code_simp
  show ?thesis using h nr c n tr hit m fresh by simp
qed

text \<open>
  The claim as stated, for every carrier, fails on a carrier without an API key: the
  configuration check comes before the cache is read, so with a response stored for the
  pair 100 seconds ago \<open>rate_shipment\<close> raises the user error of the check.
\<close>

theorem rate_shipment_cache_counterexample:
  "cache_get cached_world (cache_key (example_carrier\<lparr>bobgo_api_key := None\<rparr>) example_order)
     = example_action
   \<and> now cached_world - 900 = 100
   \<and> fst (rate_shipment example_framework example_runtime
            (example_carrier\<lparr>bobgo_api_key := None\<rparr>) example_order cached_world) =
       Inl (UserError (Msg
         ''Bobgo API Key is not configured. Please set it in the delivery method configuration.''))"
  by code_simp

end
